theory Spec2Isabelle
  imports Complex_Main "HOL-Library.Multiset" "HOL-Library.Char_ord" "HOL-Library.List_Lexorder"
begin

section \<open>Python strings\<close>

text \<open>
  A Python \<^verbatim>\<open>str\<close> is modelled as a \<^typ>\<open>string\<close> whose characters are the code
  points below 256; on that range the functions below agree with CPython's \<^verbatim>\<open>str.isspace\<close>,
  \<^verbatim>\<open>str.lower\<close>, \<^verbatim>\<open>str.strip\<close>, \<^verbatim>\<open>str.split\<close> (both without argument) and
  \<^verbatim>\<open>str.replace\<close>. Python integers are modelled as \<^typ>\<open>int\<close>, and the counters of a
  report, which start at 0 and are only incremented, as \<^typ>\<open>nat\<close>.
\<close>

definition py_isspace :: "char \<Rightarrow> bool" where
  "py_isspace c = (of_char c \<in> {9, 10, 11, 12, 13, 28, 29, 30, 31, 32, 133, 160 :: nat})"

definition lower_char :: "char \<Rightarrow> char" where
  "lower_char c =
     (let n = (of_char c :: nat)
      in if (65 \<le> n \<and> n \<le> 90) \<or> (192 \<le> n \<and> n \<le> 222 \<and> n \<noteq> 215)
         then char_of (n + 32) else c)"

definition py_lower :: "string \<Rightarrow> string" where
  "py_lower s = map lower_char s"

definition py_strip :: "string \<Rightarrow> string" where
  "py_strip s = rev (dropWhile py_isspace (rev (dropWhile py_isspace s)))"

text \<open>\<^verbatim>\<open>s.split()\<close>: the maximal runs of non-whitespace characters, in order. The first
  argument is the word being read.\<close>

fun split_from :: "string \<Rightarrow> string \<Rightarrow> string list" where
  "split_from w [] = (if w = [] then [] else [w])"
| "split_from w (c # cs) =
     (if py_isspace c then (if w = [] then split_from [] cs else w # split_from [] cs)
      else split_from (w @ [c]) cs)"

definition py_split :: "string \<Rightarrow> string list" where
  "py_split s = split_from [] s"

text \<open>The character class \<^verbatim>\<open>[a-zA-Z]\<close> of \<^verbatim>\<open>re.search(r'[a-zA-Z]', text)\<close>.\<close>

definition ascii_letter :: "char \<Rightarrow> bool" where
  "ascii_letter c =
     (let n = (of_char c :: nat) in (97 \<le> n \<and> n \<le> 122) \<or> (65 \<le> n \<and> n \<le> 90))"

section \<open>Python floats\<close>

text \<open>
  A Python float is a finite number, one of the two infinities or NaN. Finite numbers are
  modelled as reals: rounding and overflow are not modelled. The comparisons follow IEEE 754
  as Python has them: every comparison with NaN is false (\<^verbatim>\<open>!=\<close> apart), and a subtraction
  with NaN, or of an infinity from itself, gives NaN. An integer that meets a float (the
  default \<^verbatim>\<open>0\<close> of \<^verbatim>\<open>.get\<close>) is the finite number of the same value.
\<close>

datatype pyfloat = Fin real | PosInf | NegInf | NaN

text \<open>\<^verbatim>\<open>x < y\<close>, \<^verbatim>\<open>x > y\<close>, \<^verbatim>\<open>x >= y\<close>, \<^verbatim>\<open>x <= y\<close>, \<^verbatim>\<open>x == y\<close> and \<^verbatim>\<open>x - y\<close>.\<close>

fun float_lt :: "pyfloat \<Rightarrow> pyfloat \<Rightarrow> bool" where
  "float_lt NaN y = False"
| "float_lt x NaN = False"
| "float_lt PosInf y = False"
| "float_lt x NegInf = False"
| "float_lt (Fin a) (Fin b) = (a < b)"
| "float_lt x y = True"

definition float_gt :: "pyfloat \<Rightarrow> pyfloat \<Rightarrow> bool" where
  "float_gt x y = float_lt y x"

definition float_ge :: "pyfloat \<Rightarrow> pyfloat \<Rightarrow> bool" where
  "float_ge x y = (x \<noteq> NaN \<and> y \<noteq> NaN \<and> \<not> float_lt x y)"

definition float_le :: "pyfloat \<Rightarrow> pyfloat \<Rightarrow> bool" where
  "float_le x y = float_ge y x"

definition float_eq :: "pyfloat \<Rightarrow> pyfloat \<Rightarrow> bool" where
  "float_eq x y = (x \<noteq> NaN \<and> x = y)"

fun float_sub :: "pyfloat \<Rightarrow> pyfloat \<Rightarrow> pyfloat" where
  "float_sub NaN y = NaN"
| "float_sub x NaN = NaN"
| "float_sub (Fin a) (Fin b) = Fin (a - b)"
| "float_sub PosInf PosInf = NaN"
| "float_sub NegInf NegInf = NaN"
| "float_sub PosInf y = PosInf"
| "float_sub NegInf y = NegInf"
| "float_sub x PosInf = NegInf"
| "float_sub x NegInf = PosInf"

section \<open>Records of the pipeline stages\<close>

text \<open>
  The stages exchange dictionaries. A key that the code reads with \<^verbatim>\<open>.get\<close> or with
  \<^verbatim>\<open>[...]\<close> may be absent, so every field is optional; the empty dictionary \<^verbatim>\<open>{}\<close> is the
  record with no field set.
\<close>

record preprocess_result =
  p_success :: "bool option"
  p_error :: "string option"
  p_original_duration :: "pyfloat option"
  p_final_duration :: "pyfloat option"
  p_sample_rate :: "int option"
  p_output_path :: "string option"
  p_input_file :: "string option"
  p_output_file :: "string option"

record transcription_result =
  t_success :: "bool option"
  t_error :: "string option"
  t_text :: "string option"
  t_language :: "string option"
  t_confidence :: "pyfloat option"
  t_word_count :: "int option"
  t_segments :: "int option"
  t_filename :: "string option"
  t_audio_path :: "string option"

definition empty_preprocess :: preprocess_result where
  "empty_preprocess =
     \<lparr>p_success = None, p_error = None, p_original_duration = None, p_final_duration = None,
      p_sample_rate = None, p_output_path = None, p_input_file = None, p_output_file = None\<rparr>"

definition empty_transcription :: transcription_result where
  "empty_transcription =
     \<lparr>t_success = None, t_error = None, t_text = None, t_language = None, t_confidence = None,
      t_word_count = None, t_segments = None, t_filename = None, t_audio_path = None\<rparr>"

text \<open>\<^verbatim>\<open>d.get(key, default)\<close> and the truth value of \<^verbatim>\<open>d.get(key)\<close> for a boolean field.\<close>

definition get_or :: "'a option \<Rightarrow> 'a \<Rightarrow> 'a" where
  "get_or v d = (case v of None \<Rightarrow> d | Some x \<Rightarrow> x)"

definition truthy :: "bool option \<Rightarrow> bool" where
  "truthy v = (case v of None \<Rightarrow> False | Some b \<Rightarrow> b)"

section \<open>The two filters (filter\_quality.py)\<close>

text \<open>
  A filter returns a flag and a message built by an f-string. The message is kept as a
  constructor with the values the f-string formats; how a number is printed is not modelled.
\<close>

datatype reason =
    TooShort pyfloat pyfloat
  | TooLong pyfloat pyfloat
  | DurationOK
  | TranscriptionFailed string
  | EmptyTranscription
  | LowConfidence pyfloat pyfloat
  | TooFewWords int int
  | NoAlphabetic
  | ExcessiveRepetition real
  | QualityOK

definition filter_by_duration ::
  "preprocess_result \<Rightarrow> pyfloat \<Rightarrow> pyfloat \<Rightarrow> bool \<times> reason" where
  "filter_by_duration sample min_duration max_duration =
     (let duration = get_or (p_final_duration sample) (Fin 0)
      in if float_lt duration min_duration then (False, TooShort duration min_duration)
         else if float_gt duration max_duration then (False, TooLong duration max_duration)
         else (True, DurationOK))"

text \<open>
  \<^verbatim>\<open>len(set(words)) / len(words)\<close>. The code compares the rounded quotient with the float
  \<^verbatim>\<open>0.3\<close>; a quotient of two counts below \<open>10\<^sup>1\<^sup>5\<close> that differs from 3/10 differs from it by
  more than the rounding, and 3/10 itself rounds to that float, so the comparison is the one
  of the exact quotient with 3/10.
\<close>

definition unique_ratio :: "string list \<Rightarrow> real" where
  "unique_ratio ws = real (card (set ws)) / real (length ws)"

definition filter_by_transcription_quality ::
  "transcription_result \<Rightarrow> pyfloat \<Rightarrow> int \<Rightarrow> bool \<times> reason" where
  "filter_by_transcription_quality sample min_confidence min_words =
     (let text = py_strip (get_or (t_text sample) []);
          confidence = get_or (t_confidence sample) (Fin 0);
          word_count = get_or (t_word_count sample) 0
      in if \<not> truthy (t_success sample)
         then (False, TranscriptionFailed (get_or (t_error sample) ''Unknown error''))
         else if text = [] then (False, EmptyTranscription)
         else if float_lt confidence min_confidence
         then (False, LowConfidence confidence min_confidence)
         else if word_count < min_words then (False, TooFewWords word_count min_words)
         else if \<not> list_ex ascii_letter text then (False, NoAlphabetic)
         else
           (let ws = py_split (py_lower text)
            in if length ws > 0 \<and> unique_ratio ws < 3 / 10 \<and> length ws > 5
               then (False, ExcessiveRepetition (unique_ratio ws))
               else (True, QualityOK)))"

section \<open>Joining and filtering (apply\_filters)\<close>

datatype py_error = KeyError string | NotADirectoryError

text \<open>
  The two lookup dictionaries are built by dictionary comprehensions: the records are visited
  in order and a later record replaces an earlier one under the same key. \<^verbatim>\<open>r['output_file']\<close>
  and \<^verbatim>\<open>r['filename']\<close> raise KeyError when the key is absent. The first argument is the
  dictionary built so far.
\<close>

fun preprocess_dict_from ::
  "(string \<rightharpoonup> preprocess_result) \<Rightarrow> preprocess_result list
     \<Rightarrow> py_error + (string \<rightharpoonup> preprocess_result)" where
  "preprocess_dict_from d [] = Inr d"
| "preprocess_dict_from d (r # rs) =
     (if truthy (p_success r)
      then (case p_output_file r of
              None \<Rightarrow> Inl (KeyError ''output_file'')
            | Some f \<Rightarrow> preprocess_dict_from (d(py_lower f \<mapsto> r)) rs)
      else preprocess_dict_from d rs)"

fun transcribe_dict_from ::
  "(string \<rightharpoonup> transcription_result) \<Rightarrow> transcription_result list
     \<Rightarrow> py_error + (string \<rightharpoonup> transcription_result)" where
  "transcribe_dict_from d [] = Inr d"
| "transcribe_dict_from d (r # rs) =
     (case t_filename r of
        None \<Rightarrow> Inl (KeyError ''filename'')
      | Some f \<Rightarrow> transcribe_dict_from (d(py_lower f \<mapsto> r)) rs)"

record filtered_sample =
  filename :: string
  preprocessing :: preprocess_result
  transcription :: transcription_result
  status :: string

record failed_sample =
  failed_filename :: string
  failed_reasons :: "reason list"

record filter_report =
  total :: nat
  passed :: nat
  failed_duration :: nat
  failed_quality :: nat
  failed_both :: nat
  reasons :: "failed_sample list"

text \<open>One iteration of the loop over \<^verbatim>\<open>samples\<close>, on the pair of \<^verbatim>\<open>filtered_samples\<close> and
  \<^verbatim>\<open>filter_report\<close>. A candidate whose transcription lookup gives the empty dictionary is
  skipped by \<^verbatim>\<open>continue\<close>.\<close>

definition filter_sample ::
  "(string \<rightharpoonup> preprocess_result) \<Rightarrow> (string \<rightharpoonup> transcription_result)
     \<Rightarrow> pyfloat \<Rightarrow> pyfloat \<Rightarrow> pyfloat \<Rightarrow> int
     \<Rightarrow> filtered_sample list \<times> filter_report \<Rightarrow> string
     \<Rightarrow> filtered_sample list \<times> filter_report" where
  "filter_sample preprocess_dict transcribe_dict min_duration max_duration min_confidence min_words
       st sample =
     (let filtered_samples = fst st;
          report = snd st;
          sample_lower = py_lower sample;
          preproc = get_or (preprocess_dict sample_lower) empty_preprocess;
          transcr = get_or (transcribe_dict sample_lower) empty_transcription
      in if transcr = empty_transcription then st
         else
           (let (duration_pass, duration_reason) =
                  filter_by_duration preproc min_duration max_duration;
                (quality_pass, quality_reason) =
                  filter_by_transcription_quality transcr min_confidence min_words
            in if duration_pass \<and> quality_pass
               then (filtered_samples @
                       [\<lparr>filename = sample, preprocessing = preproc, transcription = transcr,
                         status = ''passed''\<rparr>],
                     report\<lparr>passed := passed report + 1\<rparr>)
               else
                 (let rs = (if \<not> duration_pass then [duration_reason] else []) @
                           (if \<not> quality_pass then [quality_reason] else []);
                      report1 = (if \<not> duration_pass
                                 then report\<lparr>failed_duration := failed_duration report + 1\<rparr>
                                 else report);
                      report2 = (if \<not> quality_pass
                                 then report1\<lparr>failed_quality := failed_quality report1 + 1\<rparr>
                                 else report1);
                      report3 = (if \<not> duration_pass \<and> \<not> quality_pass
                                 then report2\<lparr>failed_both := failed_both report2 + 1\<rparr>
                                 else report2)
                  in (filtered_samples,
                      report3\<lparr>reasons := reasons report3 @
                          [\<lparr>failed_filename = sample, failed_reasons = rs\<rparr>]\<rparr>))))"

definition apply_filters ::
  "string list \<Rightarrow> preprocess_result list \<Rightarrow> transcription_result list
     \<Rightarrow> pyfloat \<Rightarrow> pyfloat \<Rightarrow> pyfloat \<Rightarrow> int
     \<Rightarrow> py_error + (filtered_sample list \<times> filter_report)" where
  "apply_filters samples preprocess_results transcription_results
       min_duration max_duration min_confidence min_words =
     (let filter_report = \<lparr>total = length samples, passed = 0, failed_duration = 0,
                           failed_quality = 0, failed_both = 0, reasons = []\<rparr>
      in case preprocess_dict_from Map.empty preprocess_results of
           Inl e \<Rightarrow> Inl e
         | Inr preprocess_dict \<Rightarrow>
             (case transcribe_dict_from Map.empty transcription_results of
                Inl e \<Rightarrow> Inl e
              | Inr transcribe_dict \<Rightarrow>
                  Inr (foldl (filter_sample preprocess_dict transcribe_dict
                                min_duration max_duration min_confidence min_words)
                         ([], filter_report) samples)))"

section \<open>Version resolution (run\_pipeline.py)\<close>

text \<open>
  \<^verbatim>\<open>name.startswith(p)\<close>, \<^verbatim>\<open>s.replace(old, new)\<close> (every occurrence, left to right, without
  overlap) and \<^verbatim>\<open>int(s)\<close> for a string: optional whitespace around an optional sign and
  decimal digits, where single underscores may separate digits; anything else raises
  ValueError, modelled as \<^term>\<open>None\<close>. The whitespace that \<^verbatim>\<open>int\<close> accepts is narrower than
  that of \<^verbatim>\<open>str.isspace\<close>: the separators 28 to 31 are refused.
\<close>

definition startswith :: "string \<Rightarrow> string \<Rightarrow> bool" where
  "startswith s p = (take (length p) s = p)"

fun py_replace :: "string \<Rightarrow> string \<Rightarrow> string \<Rightarrow> string" where
  "py_replace old new [] = (if old = [] then new else [])"
| "py_replace old new (c # cs) =
     (case old of
        [] \<Rightarrow> new @ c # py_replace old new cs
      | x # xs \<Rightarrow>
          if c = x \<and> take (length xs) cs = xs
          then new @ py_replace old new (drop (length xs) cs)
          else c # py_replace old new cs)"

definition int_space :: "char \<Rightarrow> bool" where
  "int_space c = (of_char c \<in> {9, 10, 11, 12, 13, 32, 133, 160 :: nat})"

definition is_digit :: "char \<Rightarrow> bool" where
  "is_digit c = (48 \<le> (of_char c :: nat) \<and> (of_char c :: nat) \<le> 57)"

definition digit_value :: "char \<Rightarrow> int" where
  "digit_value c = int (of_char c) - 48"

text \<open>The digits after the first one; the first argument is the value read so far.\<close>

fun more_digits :: "int \<Rightarrow> string \<Rightarrow> int option" where
  "more_digits v [] = Some v"
| "more_digits v [c] = (if is_digit c then Some (10 * v + digit_value c) else None)"
| "more_digits v (c # d # cs) =
     (if is_digit c then more_digits (10 * v + digit_value c) (d # cs)
      else if c = CHR ''_'' \<and> is_digit d then more_digits (10 * v + digit_value d) cs
      else None)"

definition unsigned_int :: "string \<Rightarrow> int option" where
  "unsigned_int s =
     (case s of
        [] \<Rightarrow> None
      | c # cs \<Rightarrow> if is_digit c then more_digits (digit_value c) cs else None)"

definition py_int :: "string \<Rightarrow> int option" where
  "py_int s =
     (let t = rev (dropWhile int_space (rev (dropWhile int_space s)))
      in case t of
           [] \<Rightarrow> None
         | c # cs \<Rightarrow>
             if c = CHR ''-'' then map_option uminus (unsigned_int cs)
             else if c = CHR ''+'' then unsigned_int cs
             else unsigned_int t)"

text \<open>
  What \<^verbatim>\<open>get_next_version\<close> sees of the file system at \<^verbatim>\<open>output_dir\<close>: nothing, something
  that is not a directory (\<^verbatim>\<open>iterdir\<close> then raises), or a directory with its entries in the
  order \<^verbatim>\<open>iterdir\<close> yields them.
\<close>

record dir_item =
  name :: string
  is_dir :: bool

datatype path_state = Missing | NotDir | Dir "dir_item list"

text \<open>The loop over \<^verbatim>\<open>output_path.iterdir()\<close>; the first argument is
  \<^verbatim>\<open>existing_versions\<close>.\<close>

fun scan_versions :: "int list \<Rightarrow> dir_item list \<Rightarrow> int list" where
  "scan_versions existing_versions [] = existing_versions"
| "scan_versions existing_versions (item # items) =
     (if is_dir item \<and> startswith (name item) ''dataset_v''
      then (case py_int (py_replace ''dataset_v'' [] (name item)) of
              Some version \<Rightarrow> scan_versions (existing_versions @ [version]) items
            | None \<Rightarrow> scan_versions existing_versions items)
      else scan_versions existing_versions items)"

definition get_next_version :: "path_state \<Rightarrow> py_error + int" where
  "get_next_version output_path =
     (case output_path of
        Missing \<Rightarrow> Inr 1
      | NotDir \<Rightarrow> Inl NotADirectoryError
      | Dir items \<Rightarrow>
          (let existing_versions = scan_versions [] items
           in if existing_versions = [] then Inr 1
              else Inr (Max (set existing_versions) + 1)))"

section \<open>Dataset records (create\_dataset.py)\<close>

text \<open>
  \<^verbatim>\<open>Path(filename).stem\<close> on a POSIX path: the path is cut at \<^verbatim>\<open>/\<close>, empty and \<^verbatim>\<open>.\<close>
  components are dropped, the name is the last component left (empty if there is none), and
  the stem is the name without its last suffix, where a dot in first or last position starts
  no suffix (pathlib before Python 3.14, which also takes a final dot for a suffix).
\<close>

fun split_sep :: "char \<Rightarrow> string \<Rightarrow> string \<Rightarrow> string list" where
  "split_sep sep w [] = [w]"
| "split_sep sep w (c # cs) =
     (if c = sep then w # split_sep sep [] cs else split_sep sep (w @ [c]) cs)"

definition path_name :: "string \<Rightarrow> string" where
  "path_name p =
     (let parts = filter (\<lambda>x. x \<noteq> [] \<and> x \<noteq> ''.'') (split_sep (CHR ''/'') [] p)
      in if parts = [] then [] else last parts)"

text \<open>\<^verbatim>\<open>s.rfind('.')\<close>, with \<^term>\<open>None\<close> for \<^verbatim>\<open>-1\<close>.\<close>

fun rfind_dot :: "string \<Rightarrow> nat option" where
  "rfind_dot [] = None"
| "rfind_dot (c # cs) =
     (case rfind_dot cs of
        Some i \<Rightarrow> Some (Suc i)
      | None \<Rightarrow> if c = CHR ''.'' then Some 0 else None)"

definition stem :: "string \<Rightarrow> string" where
  "stem p =
     (let n = path_name p
      in case rfind_dot n of
           None \<Rightarrow> n
         | Some i \<Rightarrow> if 0 < i \<and> i < length n - 1 then take i n else n)"

text \<open>
  The name \<^verbatim>\<open>preprocess_audio_batch\<close> gives to the processed copy of an audio file,
  \<^verbatim>\<open>(output_path / f"{audio_file.stem}.wav").name\<close>; it becomes the \<^verbatim>\<open>output_file\<close> of the
  preprocessing record and, for a successful record, a candidate of \<^verbatim>\<open>apply_filters\<close>.
\<close>

definition output_file_name :: "string \<Rightarrow> string" where
  "output_file_name audio_file = path_name (stem audio_file @ ''.wav'')"

record dataset_record =
  sample_id :: string
  d_filename :: string
  audio_path :: string
  d_transcription :: string
  duration_seconds :: pyfloat
  sample_rate :: int
  language :: string
  confidence :: pyfloat
  word_count :: int
  segments :: int
  original_duration :: pyfloat
  trimmed_duration :: pyfloat

text \<open>The dictionary built for one sample in the loop of \<^verbatim>\<open>create_dataset_metadata\<close>.\<close>

definition make_record :: "filtered_sample \<Rightarrow> dataset_record" where
  "make_record sample =
     (let preproc = preprocessing sample;
          transcr = transcription sample
      in \<lparr>sample_id = stem (filename sample),
          d_filename = filename sample,
          audio_path = get_or (p_output_path preproc) [],
          d_transcription = get_or (t_text transcr) [],
          duration_seconds = get_or (p_final_duration preproc) (Fin 0),
          sample_rate = get_or (p_sample_rate preproc) 16000,
          language = get_or (t_language transcr) ''unknown'',
          confidence = get_or (t_confidence transcr) (Fin 0),
          word_count = get_or (t_word_count transcr) 0,
          segments = get_or (t_segments transcr) 0,
          original_duration = get_or (p_original_duration preproc) (Fin 0),
          trimmed_duration =
            float_sub (get_or (p_original_duration preproc) (Fin 0))
              (get_or (p_final_duration preproc) (Fin 0))\<rparr>)"

text \<open>
  The data frame returned by \<^verbatim>\<open>create_dataset_metadata\<close>, as the list of its rows. A frame
  built from an empty list has no column, so sorting it by \<^verbatim>\<open>sample_id\<close> raises KeyError.
  The sort compares strings by code point; the order pandas gives to rows with equal
  \<^verbatim>\<open>sample_id\<close> is not specified, and nothing below depends on it. The statistics dictionary
  (which holds the time of the run) is not modelled.
\<close>

definition create_dataset_metadata :: "filtered_sample list \<Rightarrow> py_error + dataset_record list" where
  "create_dataset_metadata filtered_samples =
     (let dataset_records = map make_record filtered_samples
      in if dataset_records = [] then Inl (KeyError ''sample_id'')
         else Inr (sort_key sample_id dataset_records))"

section \<open>Notions used to state the properties\<close>

text \<open>The last element of a list that satisfies a predicate.\<close>

definition last_match :: "('a \<Rightarrow> bool) \<Rightarrow> 'a list \<Rightarrow> 'a option" where
  "last_match P xs = find P (rev xs)"

text \<open>
  The join as the specification words it: the record joined to a candidate is the last one in
  the input collection whose file name equals the candidate's after lower-casing both (for
  preprocessing, among the successful records only), and the empty dictionary if there is
  none.
\<close>

definition joined_preproc :: "preprocess_result list \<Rightarrow> string \<Rightarrow> preprocess_result" where
  "joined_preproc ps s =
     get_or (last_match (\<lambda>r. truthy (p_success r) \<and>
                              map_option py_lower (p_output_file r) = Some (py_lower s)) ps)
       empty_preprocess"

definition joined_transcr :: "transcription_result list \<Rightarrow> string \<Rightarrow> transcription_result" where
  "joined_transcr ts s =
     get_or (last_match (\<lambda>r. map_option py_lower (t_filename r) = Some (py_lower s)) ts)
       empty_transcription"

text \<open>The lookups of the loop body, and the verdicts of the two filters on what a lookup
  \<open>P\<close> of preprocessing records or \<open>T\<close> of transcription records gives for a candidate.\<close>

definition lookup_preproc :: "(string \<rightharpoonup> preprocess_result) \<Rightarrow> string \<Rightarrow> preprocess_result" where
  "lookup_preproc d s = get_or (d (py_lower s)) empty_preprocess"

definition lookup_transcr ::
  "(string \<rightharpoonup> transcription_result) \<Rightarrow> string \<Rightarrow> transcription_result" where
  "lookup_transcr d s = get_or (d (py_lower s)) empty_transcription"

definition transcribed :: "(string \<Rightarrow> transcription_result) \<Rightarrow> string \<Rightarrow> bool" where
  "transcribed T s = (T s \<noteq> empty_transcription)"

definition duration_ok ::
  "(string \<Rightarrow> preprocess_result) \<Rightarrow> pyfloat \<Rightarrow> pyfloat \<Rightarrow> string \<Rightarrow> bool" where
  "duration_ok P min_duration max_duration s =
     fst (filter_by_duration (P s) min_duration max_duration)"

definition quality_ok ::
  "(string \<Rightarrow> transcription_result) \<Rightarrow> pyfloat \<Rightarrow> int \<Rightarrow> string \<Rightarrow> bool" where
  "quality_ok T min_confidence min_words s =
     fst (filter_by_transcription_quality (T s) min_confidence min_words)"

definition passed_sample ::
  "(string \<Rightarrow> preprocess_result) \<Rightarrow> (string \<Rightarrow> transcription_result) \<Rightarrow> string
     \<Rightarrow> filtered_sample" where
  "passed_sample P T s =
     \<lparr>filename = s, preprocessing = P s, transcription = T s, status = ''passed''\<rparr>"

definition failure_of ::
  "(string \<Rightarrow> preprocess_result) \<Rightarrow> (string \<Rightarrow> transcription_result)
     \<Rightarrow> pyfloat \<Rightarrow> pyfloat \<Rightarrow> pyfloat \<Rightarrow> int \<Rightarrow> string \<Rightarrow> failed_sample" where
  "failure_of P T min_duration max_duration min_confidence min_words s =
     \<lparr>failed_filename = s,
      failed_reasons =
        (if duration_ok P min_duration max_duration s then []
         else [snd (filter_by_duration (P s) min_duration max_duration)]) @
        (if quality_ok T min_confidence min_words s then []
         else [snd (filter_by_transcription_quality (T s) min_confidence min_words)])\<rparr>"

text \<open>The keys that \<^verbatim>\<open>apply_filters\<close> reads with \<^verbatim>\<open>[...]\<close> are present.\<close>

definition keys_present :: "preprocess_result list \<Rightarrow> transcription_result list \<Rightarrow> bool" where
  "keys_present ps ts =
     (list_all (\<lambda>r. truthy (p_success r) \<longrightarrow> p_output_file r \<noteq> None) ps \<and>
      list_all (\<lambda>r. t_filename r \<noteq> None) ts)"

text \<open>A candidate has a transcription record: some record's file name equals the candidate's
  after lower-casing both.\<close>

definition has_transcription :: "transcription_result list \<Rightarrow> string \<Rightarrow> bool" where
  "has_transcription ts s =
     list_ex (\<lambda>r. map_option py_lower (t_filename r) = Some (py_lower s)) ts"

section \<open>Example inputs\<close>

text \<open>Records as \<^verbatim>\<open>preprocess_audio_batch\<close> and \<^verbatim>\<open>transcribe_batch\<close> produce them for a file
  that was processed successfully.\<close>

definition preproc_example :: "string \<Rightarrow> real \<Rightarrow> preprocess_result" where
  "preproc_example f d =
     \<lparr>p_success = Some True, p_error = None, p_original_duration = Some (Fin (d + 1)),
      p_final_duration = Some (Fin d), p_sample_rate = Some 16000,
      p_output_path = Some (''processed_audio/'' @ f), p_input_file = Some f,
      p_output_file = Some f\<rparr>"

definition transcr_example :: "string \<Rightarrow> real \<Rightarrow> string \<Rightarrow> transcription_result" where
  "transcr_example f c txt =
     \<lparr>t_success = Some True, t_error = None, t_text = Some txt, t_language = Some ''en'',
      t_confidence = Some (Fin c), t_word_count = Some (int (length (py_split txt))),
      t_segments = Some 1, t_filename = Some f,
      t_audio_path = Some (''processed_audio/'' @ f)\<rparr>"

definition scenario_preprocess :: "preprocess_result list" where
  "scenario_preprocess =
     [preproc_example ''a.wav'' 10, preproc_example ''b.wav'' 500, preproc_example ''c.wav'' 20]"

definition scenario_transcriptions :: "transcription_result list" where
  "scenario_transcriptions =
     [transcr_example ''a.wav'' (1 / 10) ''hello there world'',
      transcr_example ''b.wav'' (9 / 10) ''good morning to you'',
      transcr_example ''c.wav'' (9 / 10) ''this one is fine'']"

definition scenario_passed :: filtered_sample where
  "scenario_passed =
     \<lparr>filename = ''c.wav'', preprocessing = preproc_example ''c.wav'' 20,
      transcription = transcr_example ''c.wav'' (9 / 10) ''this one is fine'',
      status = ''passed''\<rparr>"

definition scenario_report :: filter_report where
  "scenario_report =
     \<lparr>total = 4, passed = 1, failed_duration = 1, failed_quality = 1, failed_both = 0,
      reasons =
        [\<lparr>failed_filename = ''a.wav'', failed_reasons = [LowConfidence (Fin (1 / 10)) (Fin (3 / 10))]\<rparr>,
         \<lparr>failed_filename = ''b.wav'', failed_reasons = [TooLong (Fin 500) (Fin 300)]\<rparr>]\<rparr>"

text \<open>A transcription that is good in every respect but whose confidence is NaN.\<close>

definition nan_confidence_sample :: transcription_result where
  "nan_confidence_sample =
     (transcr_example ''sample.wav'' (9 / 10) ''hello there world'')\<lparr>t_confidence := Some NaN\<rparr>"

text \<open>A record with a given final duration and nothing else of interest.\<close>

definition duration_sample :: "pyfloat \<Rightarrow> preprocess_result" where
  "duration_sample d = empty_preprocess\<lparr>p_success := Some True, p_final_duration := Some d\<rparr>"

text \<open>Two records under one lower-cased key on each side; the later ones are the good ones.\<close>

definition join_preprocess :: "preprocess_result list" where
  "join_preprocess = [preproc_example ''SAMPLE.wav'' 1, preproc_example ''Sample.wav'' 10]"

definition join_transcriptions :: "transcription_result list" where
  "join_transcriptions =
     [transcr_example ''SAMPLE.WAV'' (1 / 10) ''first try'',
      transcr_example ''sample.wav'' (9 / 10) ''hello there world'']"

definition join_passed :: filtered_sample where
  "join_passed =
     \<lparr>filename = ''Sample.wav'', preprocessing = preproc_example ''Sample.wav'' 10,
      transcription = transcr_example ''sample.wav'' (9 / 10) ''hello there world'',
      status = ''passed''\<rparr>"

definition join_report :: filter_report where
  "join_report =
     \<lparr>total = 1, passed = 1, failed_duration = 0, failed_quality = 0, failed_both = 0,
      reasons = []\<rparr>"

text \<open>A candidate whose preprocessing failed but for which a transcription exists.\<close>

definition orphan_preprocess :: "preprocess_result list" where
  "orphan_preprocess =
     [empty_preprocess\<lparr>p_success := Some False, p_error := Some ''decode error'',
        p_input_file := Some ''orphan.mp3'', p_output_file := Some ''orphan.wav''\<rparr>]"

definition orphan_transcriptions :: "transcription_result list" where
  "orphan_transcriptions = [transcr_example ''orphan.wav'' (9 / 10) ''hello there world'']"

definition orphan_report :: filter_report where
  "orphan_report =
     \<lparr>total = 1, passed = 0, failed_duration = 1, failed_quality = 0, failed_both = 0,
      reasons = [\<lparr>failed_filename = ''orphan.wav'', failed_reasons = [TooShort (Fin 0) (Fin 2)]\<rparr>]\<rparr>"

text \<open>An output directory with versions 1, 2 and 4, a plain file and other directories.\<close>

definition version_dir :: "string \<Rightarrow> dir_item" where
  "version_dir n = \<lparr>name = n, is_dir = True\<rparr>"

definition example_output_dir :: "dir_item list" where
  "example_output_dir =
     [version_dir ''dataset_v1'', version_dir ''dataset_v4'', \<lparr>name = ''dataset_v9'', is_dir = False\<rparr>,
      version_dir ''dataset_v2'', version_dir ''dataset_vfinal'', version_dir ''old_dataset_v7'',
      version_dir ''logs'']"

text \<open>Two raw files \<^verbatim>\<open>a.mp3\<close> and \<^verbatim>\<open>a.wav\<close>: both are written to \<^verbatim>\<open>a.wav\<close>, which is
  transcribed once and is a candidate twice.\<close>

definition duplicate_preprocess :: "preprocess_result list" where
  "duplicate_preprocess =
     [(preproc_example (output_file_name ''raw_audio/a.mp3'') 10)\<lparr>p_input_file := Some ''a.mp3''\<rparr>,
      (preproc_example (output_file_name ''raw_audio/a.wav'') 10)\<lparr>p_input_file := Some ''a.wav''\<rparr>]"

definition duplicate_transcriptions :: "transcription_result list" where
  "duplicate_transcriptions = [transcr_example ''a.wav'' (9 / 10) ''hello there world'']"

definition duplicate_sample :: filtered_sample where
  "duplicate_sample =
     \<lparr>filename = ''a.wav'',
      preprocessing = (preproc_example ''a.wav'' 10)\<lparr>p_input_file := Some ''a.wav''\<rparr>,
      transcription = transcr_example ''a.wav'' (9 / 10) ''hello there world'',
      status = ''passed''\<rparr>"

definition duplicate_report :: filter_report where
  "duplicate_report =
     \<lparr>total = 2, passed = 2, failed_duration = 0, failed_quality = 0, failed_both = 0,
      reasons = []\<rparr>"

text \<open>A sample whose final duration exceeds its original duration.\<close>

definition stretched_sample :: filtered_sample where
  "stretched_sample =
     \<lparr>filename = ''clip.wav'',
      preprocessing = (preproc_example ''clip.wav'' 12)\<lparr>p_original_duration := Some (Fin 10)\<rparr>,
      transcription = transcr_example ''clip.wav'' (9 / 10) ''hello there world'',
      status = ''passed''\<rparr>"

section \<open>The filtering loop\<close>

text \<open>One iteration, by cases on the lookups and the verdicts.\<close>

lemma filter_sample_cases:
  "filter_sample pd td dmin dmax cmin wmin st s =
     (if \<not> transcribed (lookup_transcr td) s then st
      else if duration_ok (lookup_preproc pd) dmin dmax s \<and> quality_ok (lookup_transcr td) cmin wmin s
      then (fst st @ [passed_sample (lookup_preproc pd) (lookup_transcr td) s], (snd st)\<lparr>passed := passed (snd st) + 1\<rparr>)
      else (fst st,
            (snd st)\<lparr>failed_duration := failed_duration (snd st) + (if duration_ok (lookup_preproc pd) dmin dmax s then 0 else 1),
                     failed_quality := failed_quality (snd st) + (if quality_ok (lookup_transcr td) cmin wmin s then 0 else 1),
                     failed_both := failed_both (snd st) + (if \<not> duration_ok (lookup_preproc pd) dmin dmax s \<and> \<not> quality_ok (lookup_transcr td) cmin wmin s then 1 else 0),
                     reasons := reasons (snd st) @ [failure_of (lookup_preproc pd) (lookup_transcr td) dmin dmax cmin wmin s]\<rparr>))"
  by (cases st)
     (auto simp: filter_sample_def Let_def transcribed_def duration_ok_def quality_ok_def
        passed_sample_def failure_of_def lookup_preproc_def lookup_transcr_def
        split: prod.splits)



lemma foldl_filtered:
  "fst (foldl (filter_sample pd td dmin dmax cmin wmin) st ss) =
     fst st @ map (passed_sample (lookup_preproc pd) (lookup_transcr td))
       (filter (\<lambda>s. transcribed (lookup_transcr td) s \<and> duration_ok (lookup_preproc pd) dmin dmax s \<and> quality_ok (lookup_transcr td) cmin wmin s) ss)"
  by (induction ss arbitrary: st) (simp_all add: filter_sample_cases)

lemma foldl_total:
  "total (snd (foldl (filter_sample pd td dmin dmax cmin wmin) st ss)) = total (snd st)"
  by (induction ss arbitrary: st) (simp_all add: filter_sample_cases)

lemma foldl_passed:
  "passed (snd (foldl (filter_sample pd td dmin dmax cmin wmin) st ss)) =
     passed (snd st) +
     length (filter (\<lambda>s. transcribed (lookup_transcr td) s \<and> duration_ok (lookup_preproc pd) dmin dmax s \<and> quality_ok (lookup_transcr td) cmin wmin s) ss)"
  by (induction ss arbitrary: st) (simp_all add: filter_sample_cases)

lemma foldl_failed_duration:
  "failed_duration (snd (foldl (filter_sample pd td dmin dmax cmin wmin) st ss)) =
     failed_duration (snd st) +
     length (filter (\<lambda>s. transcribed (lookup_transcr td) s \<and> \<not> duration_ok (lookup_preproc pd) dmin dmax s) ss)"
  by (induction ss arbitrary: st) (simp_all add: filter_sample_cases)

lemma foldl_failed_quality:
  "failed_quality (snd (foldl (filter_sample pd td dmin dmax cmin wmin) st ss)) =
     failed_quality (snd st) +
     length (filter (\<lambda>s. transcribed (lookup_transcr td) s \<and> \<not> quality_ok (lookup_transcr td) cmin wmin s) ss)"
  by (induction ss arbitrary: st) (simp_all add: filter_sample_cases)

lemma foldl_failed_both:
  "failed_both (snd (foldl (filter_sample pd td dmin dmax cmin wmin) st ss)) =
     failed_both (snd st) +
     length (filter (\<lambda>s. transcribed (lookup_transcr td) s \<and> \<not> duration_ok (lookup_preproc pd) dmin dmax s \<and> \<not> quality_ok (lookup_transcr td) cmin wmin s) ss)"
  by (induction ss arbitrary: st) (simp_all add: filter_sample_cases)

lemma foldl_reasons:
  "reasons (snd (foldl (filter_sample pd td dmin dmax cmin wmin) st ss)) =
     reasons (snd st) @ map (failure_of (lookup_preproc pd) (lookup_transcr td) dmin dmax cmin wmin)
       (filter (\<lambda>s. transcribed (lookup_transcr td) s \<and> \<not> (duration_ok (lookup_preproc pd) dmin dmax s \<and> quality_ok (lookup_transcr td) cmin wmin s)) ss)"
  by (induction ss arbitrary: st) (simp_all add: filter_sample_cases)

subsection \<open>The lookup dictionaries\<close>

lemma last_match_Cons:
  "last_match P (x # xs) =
     (case last_match P xs of Some y \<Rightarrow> Some y | None \<Rightarrow> if P x then Some x else None)"
proof -
  have "find P (ys @ [x]) = (case find P ys of Some y \<Rightarrow> Some y | None \<Rightarrow> if P x then Some x else None)" for ys
    by (induction ys) simp_all
  then show ?thesis by (simp add: last_match_def)
qed

lemma preprocess_dict_from_lookup:
  "preprocess_dict_from d rs = Inr pd \<Longrightarrow>
     pd k = (case last_match (\<lambda>r. truthy (p_success r) \<and> map_option py_lower (p_output_file r) = Some k) rs of
               Some r \<Rightarrow> Some r | None \<Rightarrow> d k)"
proof (induction rs arbitrary: d)
  case Nil
  then show ?case by (simp add: last_match_def)
next
  case (Cons r rs)
  show ?case
  proof (cases "truthy (p_success r)")
    case False
    with Cons.prems have "preprocess_dict_from d rs = Inr pd" by simp
    from Cons.IH [OF this] False show ?thesis
      by (simp add: last_match_Cons split: option.splits)
  next
    case True
    with Cons.prems obtain f where f: "p_output_file r = Some f"
      and rest: "preprocess_dict_from (d(py_lower f \<mapsto> r)) rs = Inr pd"
      by (auto split: option.splits)
    from Cons.IH [OF rest] True f show ?thesis
      by (auto simp: last_match_Cons split: option.splits)
  qed
qed

lemma transcribe_dict_from_lookup:
  "transcribe_dict_from d rs = Inr td \<Longrightarrow>
     td k = (case last_match (\<lambda>r. map_option py_lower (t_filename r) = Some k) rs of
               Some r \<Rightarrow> Some r | None \<Rightarrow> d k)"
proof (induction rs arbitrary: d)
  case Nil
  then show ?case by (simp add: last_match_def)
next
  case (Cons r rs)
  from Cons.prems obtain f where f: "t_filename r = Some f"
    and rest: "transcribe_dict_from (d(py_lower f \<mapsto> r)) rs = Inr td"
    by (auto split: option.splits)
  from Cons.IH [OF rest] f show ?case
    by (auto simp: last_match_Cons split: option.splits)
qed

lemma preprocess_dict_from_ok:
  "(\<exists>pd. preprocess_dict_from d rs = Inr pd) \<longleftrightarrow>
     (\<forall>r \<in> set rs. truthy (p_success r) \<longrightarrow> p_output_file r \<noteq> None)"
proof (induction rs arbitrary: d)
  case Nil
  show ?case by simp
next
  case (Cons r rs)
  show ?case
  proof (cases "truthy (p_success r)")
    case False
    then show ?thesis by (simp add: Cons.IH)
  next
    case True
    show ?thesis
    proof (cases "p_output_file r")
      case None
      with True show ?thesis by auto
    next
      case (Some f)
      with True show ?thesis by (simp add: Cons.IH)
    qed
  qed
qed

lemma transcribe_dict_from_ok:
  "(\<exists>td. transcribe_dict_from d rs = Inr td) \<longleftrightarrow> (\<forall>r \<in> set rs. t_filename r \<noteq> None)"
proof (induction rs arbitrary: d)
  case Nil
  show ?case by simp
next
  case (Cons r rs)
  show ?case
  proof (cases "t_filename r")
    case None
    then show ?thesis by auto
  next
    case (Some f)
    then show ?thesis by (simp add: Cons.IH)
  qed
qed

lemma last_match_Some: "last_match P xs = Some x \<Longrightarrow> P x \<and> x \<in> set xs"
proof -
  have "find P ys = Some x \<Longrightarrow> P x \<and> x \<in> set ys" for ys
    by (induction ys) (auto split: if_splits)
  from this [of "rev xs"] show "last_match P xs = Some x \<Longrightarrow> P x \<and> x \<in> set xs"
    by (simp add: last_match_def)
qed

lemma last_match_None: "last_match P xs = None \<longleftrightarrow> (\<forall>x \<in> set xs. \<not> P x)"
  by (auto simp: last_match_def find_None_iff)

subsection \<open>The result of apply\_filters\<close>

lemma lookup_preproc_joined:
  assumes "preprocess_dict_from Map.empty ps = Inr pd"
  shows "lookup_preproc pd = joined_preproc ps"
proof
  fix s
  show "lookup_preproc pd s = joined_preproc ps s"
    using preprocess_dict_from_lookup [OF assms, of "py_lower s"]
    by (simp add: lookup_preproc_def joined_preproc_def get_or_def split: option.splits)
qed

lemma lookup_transcr_joined:
  assumes "transcribe_dict_from Map.empty ts = Inr td"
  shows "lookup_transcr td = joined_transcr ts"
proof
  fix s
  show "lookup_transcr td s = joined_transcr ts s"
    using transcribe_dict_from_lookup [OF assms, of "py_lower s"]
    by (simp add: lookup_transcr_def joined_transcr_def get_or_def split: option.splits)
qed

lemma keys_present_iff:
  "keys_present ps ts \<longleftrightarrow>
     (\<exists>pd td. preprocess_dict_from Map.empty ps = Inr pd \<and> transcribe_dict_from Map.empty ts = Inr td)"
  using preprocess_dict_from_ok [of Map.empty ps] transcribe_dict_from_ok [of Map.empty ts]
  by (simp add: keys_present_def list_all_iff)


lemma apply_filters_returns:
  "keys_present ps ts \<Longrightarrow> \<exists>fs rep. apply_filters ss ps ts dmin dmax cmin wmin = Inr (fs, rep)"
  by (auto simp: keys_present_iff apply_filters_def Let_def intro: prod.exhaust)

lemma apply_filters_result:
  assumes "apply_filters ss ps ts dmin dmax cmin wmin = Inr (fs, rep)"
  shows "keys_present ps ts"
    and "fs = map (passed_sample (joined_preproc ps) (joined_transcr ts))
           (filter (\<lambda>s. transcribed (joined_transcr ts) s \<and>
                         duration_ok (joined_preproc ps) dmin dmax s \<and>
                         quality_ok (joined_transcr ts) cmin wmin s) ss)"
    and "total rep = length ss"
    and "passed rep =
           length (filter (\<lambda>s. transcribed (joined_transcr ts) s \<and>
                         duration_ok (joined_preproc ps) dmin dmax s \<and>
                         quality_ok (joined_transcr ts) cmin wmin s) ss)"
    and "failed_duration rep =
           length (filter (\<lambda>s. transcribed (joined_transcr ts) s \<and>
                         \<not> duration_ok (joined_preproc ps) dmin dmax s) ss)"
    and "failed_quality rep =
           length (filter (\<lambda>s. transcribed (joined_transcr ts) s \<and>
                         \<not> quality_ok (joined_transcr ts) cmin wmin s) ss)"
    and "failed_both rep =
           length (filter (\<lambda>s. transcribed (joined_transcr ts) s \<and>
                         \<not> duration_ok (joined_preproc ps) dmin dmax s \<and>
                         \<not> quality_ok (joined_transcr ts) cmin wmin s) ss)"
    and "reasons rep =
           map (failure_of (joined_preproc ps) (joined_transcr ts) dmin dmax cmin wmin)
             (filter (\<lambda>s. transcribed (joined_transcr ts) s \<and>
                         \<not> (duration_ok (joined_preproc ps) dmin dmax s \<and>
                            quality_ok (joined_transcr ts) cmin wmin s)) ss)"
proof -
  from assms obtain pd td where pd: "preprocess_dict_from Map.empty ps = Inr pd"
    and td: "transcribe_dict_from Map.empty ts = Inr td"
    and res: "foldl (filter_sample pd td dmin dmax cmin wmin)
                ([], \<lparr>total = length ss, passed = 0, failed_duration = 0, failed_quality = 0,
                      failed_both = 0, reasons = []\<rparr>) ss = (fs, rep)"
    by (auto simp: apply_filters_def Let_def split: sum.splits)
  from pd td show "keys_present ps ts"
    by (auto simp: keys_present_iff)
  note j = lookup_preproc_joined [OF pd] lookup_transcr_joined [OF td]
  let ?st = "([], \<lparr>total = length ss, passed = 0, failed_duration = 0, failed_quality = 0,
                      failed_both = 0, reasons = []\<rparr>)"
  from foldl_filtered [of pd td dmin dmax cmin wmin ?st ss, unfolded res j]
  show "fs = map (passed_sample (joined_preproc ps) (joined_transcr ts))
           (filter (\<lambda>s. transcribed (joined_transcr ts) s \<and>
                         duration_ok (joined_preproc ps) dmin dmax s \<and>
                         quality_ok (joined_transcr ts) cmin wmin s) ss)"
    by simp
  from foldl_total [of pd td dmin dmax cmin wmin ?st ss, unfolded res j]
  show "total rep = length ss" by simp
  from foldl_passed [of pd td dmin dmax cmin wmin ?st ss, unfolded res j]
  show "passed rep =
           length (filter (\<lambda>s. transcribed (joined_transcr ts) s \<and>
                         duration_ok (joined_preproc ps) dmin dmax s \<and>
                         quality_ok (joined_transcr ts) cmin wmin s) ss)" by simp
  from foldl_failed_duration [of pd td dmin dmax cmin wmin ?st ss, unfolded res j]
  show "failed_duration rep =
           length (filter (\<lambda>s. transcribed (joined_transcr ts) s \<and>
                         \<not> duration_ok (joined_preproc ps) dmin dmax s) ss)" by simp
  from foldl_failed_quality [of pd td dmin dmax cmin wmin ?st ss, unfolded res j]
  show "failed_quality rep =
           length (filter (\<lambda>s. transcribed (joined_transcr ts) s \<and>
                         \<not> quality_ok (joined_transcr ts) cmin wmin s) ss)" by simp
  from foldl_failed_both [of pd td dmin dmax cmin wmin ?st ss, unfolded res j]
  show "failed_both rep =
           length (filter (\<lambda>s. transcribed (joined_transcr ts) s \<and>
                         \<not> duration_ok (joined_preproc ps) dmin dmax s \<and>
                         \<not> quality_ok (joined_transcr ts) cmin wmin s) ss)" by simp
  from foldl_reasons [of pd td dmin dmax cmin wmin ?st ss, unfolded res j]
  show "reasons rep =
           map (failure_of (joined_preproc ps) (joined_transcr ts) dmin dmax cmin wmin)
             (filter (\<lambda>s. transcribed (joined_transcr ts) s \<and>
                         \<not> (duration_ok (joined_preproc ps) dmin dmax s \<and>
                            quality_ok (joined_transcr ts) cmin wmin s)) ss)" by simp
qed

lemma transcribed_joined:
  "transcribed (joined_transcr ts) s \<longleftrightarrow>
     (\<exists>r \<in> set ts. map_option py_lower (t_filename r) = Some (py_lower s))"
proof (cases "last_match (\<lambda>r. map_option py_lower (t_filename r) = Some (py_lower s)) ts")
  case None
  then have "joined_transcr ts s = empty_transcription"
    by (simp add: joined_transcr_def get_or_def)
  moreover from None
  have "\<forall>r \<in> set ts. \<not> map_option py_lower (t_filename r) = Some (py_lower s)"
    by (simp only: last_match_None)
  ultimately show ?thesis
    unfolding transcribed_def by blast
next
  case (Some r)
  from last_match_Some [OF Some] have r: "map_option py_lower (t_filename r) = Some (py_lower s)" "r \<in> set ts"
    by simp_all
  then have "r \<noteq> empty_transcription"
    by (auto simp: empty_transcription_def)
  with Some r show ?thesis
    by (auto simp: transcribed_def joined_transcr_def get_or_def)
qed

lemma transcribed_has_transcription:
  "transcribed (joined_transcr ts) = has_transcription ts"
  by (rule ext) (simp add: transcribed_joined has_transcription_def list_ex_iff)

lemma length_filter_mset: "length (filter P xs) = size (filter_mset P (mset xs))"
  by (metis mset_filter size_mset)

lemma filter_single_mset:
  assumes "filter_mset P (mset xs) = {#c#}"
  shows "filter P xs = [c]"
proof -
  from assms have "mset (filter P xs) = {#c#}" by simp
  then show ?thesis by (simp only: mset_single_iff)
qed

section \<open>Whitespace, case and tokens\<close>

lemma py_isspace_lower_char: "py_isspace (lower_char c) = py_isspace c"
proof -
  have "of_char (char_of (of_char c + 32 :: nat)) = (of_char c + 32 :: nat)"
    if "(of_char c :: nat) \<le> 222"
    using that by (simp add: of_char_of)
  then show ?thesis
    by (auto simp: py_isspace_def lower_char_def Let_def)
qed

lemma py_lower_strip: "py_lower (py_strip s) = py_strip (py_lower s)"
proof -
  have c: "py_isspace \<circ> lower_char = py_isspace"
    by (rule ext) (simp add: py_isspace_lower_char)
  show ?thesis
    by (simp add: py_lower_def py_strip_def rev_map dropWhile_map c)
qed

lemma split_from_spaces:
  "\<forall>c \<in> set t. py_isspace c \<Longrightarrow> split_from w t = (if w = [] then [] else [w])"
  by (induction t arbitrary: w) auto

lemma split_from_append_spaces:
  "\<forall>c \<in> set t. py_isspace c \<Longrightarrow> split_from w (s @ t) = split_from w s"
  by (induction s arbitrary: w) (auto simp: split_from_spaces)

lemma split_from_dropWhile: "split_from [] (dropWhile py_isspace s) = split_from [] s"
  by (induction s) auto

lemma py_split_strip: "py_split (py_strip s) = py_split s"
proof -
  let ?u = "dropWhile py_isspace s"
  have "rev (dropWhile py_isspace (rev ?u)) @ rev (takeWhile py_isspace (rev ?u)) = ?u"
    by (metis rev_append rev_rev_ident takeWhile_dropWhile_id)
  moreover have "\<forall>c \<in> set (rev (takeWhile py_isspace (rev ?u))). py_isspace c"
    by (auto dest: set_takeWhileD)
  ultimately have "split_from [] (rev (dropWhile py_isspace (rev ?u))) = split_from [] ?u"
    by (metis split_from_append_spaces)
  then show ?thesis
    by (simp add: py_split_def py_strip_def split_from_dropWhile)
qed

lemma words_of_stripped: "py_split (py_lower (py_strip s)) = py_split (py_lower s)"
  by (simp add: py_lower_strip py_split_strip)

lemma ascii_letter_not_space: "ascii_letter c \<Longrightarrow> \<not> py_isspace c"
  by (auto simp: ascii_letter_def py_isspace_def Let_def)

lemma letter_in_stripped:
  "list_ex ascii_letter (py_strip s) \<longleftrightarrow> list_ex ascii_letter s"
proof -
  have a: "(\<exists>c \<in> set (dropWhile py_isspace xs). ascii_letter c) \<longleftrightarrow> (\<exists>c \<in> set xs. ascii_letter c)" for xs
    by (induction xs) (auto dest: ascii_letter_not_space)
  show ?thesis
    by (simp add: py_strip_def list_ex_iff a)
qed

lemma set_py_strip: "set (py_strip s) \<subseteq> set s"
proof -
  have "set (rev (dropWhile py_isspace (rev (dropWhile py_isspace s)))) \<subseteq> set (dropWhile py_isspace s)"
    using set_dropWhileD [of _ py_isspace "rev (dropWhile py_isspace s)"] by auto
  also have "\<dots> \<subseteq> set s"
    using set_dropWhileD [of _ py_isspace s] by auto
  finally show ?thesis by (simp add: py_strip_def)
qed

section \<open>The quality filter\<close>

text \<open>
  C1, as stated, fails on NaN, which the only confidence test, \<^verbatim>\<open>confidence < min_confidence\<close>,
  lets through: with \<^verbatim>\<open>--min-confidence nan\<close> a good sample passes, and so does a sample whose
  confidence is NaN under the default threshold, while \<^verbatim>\<open>confidence >= min_confidence\<close> is
  false in both cases.
\<close>

theorem quality_pass_nan_counterexample:
  "filter_by_transcription_quality
     (transcr_example ''sample.wav'' (9 / 10) ''hello there world'') NaN 3 = (True, QualityOK) \<and>
   \<not> float_ge (get_or (t_confidence
                       (transcr_example ''sample.wav'' (9 / 10) ''hello there world'')) (Fin 0))
        NaN \<and>
   filter_by_transcription_quality nan_confidence_sample (Fin (3 / 10)) 3 = (True, QualityOK) \<and>
   \<not> float_ge (get_or (t_confidence nan_confidence_sample) (Fin 0)) (Fin (3 / 10))"
proof -
  have a: "filter_by_transcription_quality
     (transcr_example ''sample.wav'' (9 / 10) ''hello there world'') NaN 3 = (True, QualityOK)"
    by code_simp
  have b: "\<not> float_ge (get_or (t_confidence
                       (transcr_example ''sample.wav'' (9 / 10) ''hello there world'')) (Fin 0))
        NaN"
    by (simp add: float_ge_def)
  have c: "filter_by_transcription_quality nan_confidence_sample (Fin (3 / 10)) 3 =
             (True, QualityOK)"
    by code_simp
  have d: "\<not> float_ge (get_or (t_confidence nan_confidence_sample) (Fin 0)) (Fin (3 / 10))"
    by (simp add: float_ge_def nan_confidence_sample_def transcr_example_def get_or_def)
  show ?thesis
    by (rule conjI [OF a conjI [OF b conjI [OF c d]]])
qed

text \<open>
  C1, amended: whenever \<^verbatim>\<open>filter_by_transcription_quality\<close> returns pass for a sample record,
  with the thresholds \<open>min_confidence\<close> and \<open>min_words\<close>, the sample reports success, its
  stripped text is not empty, its word count is at least \<open>min_words\<close>, its text contains at
  least one letter of \<^verbatim>\<open>[a-zA-Z]\<close>, and its confidence is not below \<open>min_confidence\<close>; so the
  confidence is at least \<open>min_confidence\<close> unless one of the two is NaN. A key that is absent
  reads as the default the code gives to \<^verbatim>\<open>.get\<close>.
\<close>

theorem quality_pass_sound:
  assumes "fst (filter_by_transcription_quality sample min_confidence min_words)"
  shows "truthy (t_success sample) \<and>
         py_strip (get_or (t_text sample) []) \<noteq> [] \<and>
         \<not> float_lt (get_or (t_confidence sample) (Fin 0)) min_confidence \<and>
         (get_or (t_confidence sample) (Fin 0) \<noteq> NaN \<and> min_confidence \<noteq> NaN \<longrightarrow>
            float_ge (get_or (t_confidence sample) (Fin 0)) min_confidence) \<and>
         min_words \<le> get_or (t_word_count sample) 0 \<and>
         (\<exists>c \<in> set (get_or (t_text sample) []). ascii_letter c)"
proof -
  from assms have "list_ex ascii_letter (py_strip (get_or (t_text sample) []))"
    by (auto simp: filter_by_transcription_quality_def Let_def split: if_splits)
  then have "\<exists>c \<in> set (get_or (t_text sample) []). ascii_letter c"
    using set_py_strip [of "get_or (t_text sample) []"] by (auto simp: list_ex_iff)
  with assms show ?thesis
    by (auto simp: filter_by_transcription_quality_def Let_def float_ge_def split: if_splits)
qed

theorem quality_pass_sound_witness:
  "fst (filter_by_transcription_quality
          (transcr_example ''sample.wav'' (9 / 10) '' Hello there world '') (Fin (3 / 10)) 3) \<and>
   truthy (t_success (transcr_example ''sample.wav'' (9 / 10) '' Hello there world '')) \<and>
   py_strip (get_or (t_text (transcr_example ''sample.wav'' (9 / 10) '' Hello there world '')) [])
     \<noteq> [] \<and>
   float_ge (get_or (t_confidence
                      (transcr_example ''sample.wav'' (9 / 10) '' Hello there world '')) (Fin 0))
     (Fin (3 / 10)) \<and>
   3 \<le> get_or (t_word_count
             (transcr_example ''sample.wav'' (9 / 10) '' Hello there world '')) 0 \<and>
   (\<exists>c \<in> set (get_or (t_text
                       (transcr_example ''sample.wav'' (9 / 10) '' Hello there world '')) []).
      ascii_letter c)"
proof -
  have h: "fst (filter_by_transcription_quality
                  (transcr_example ''sample.wav'' (9 / 10) '' Hello there world '')
                  (Fin (3 / 10)) 3)"
    by code_simp
  have n: "get_or (t_confidence
                     (transcr_example ''sample.wav'' (9 / 10) '' Hello there world '')) (Fin 0)
             \<noteq> NaN" "Fin (3 / 10) \<noteq> NaN"
    by (simp_all add: transcr_example_def get_or_def)
  from quality_pass_sound [OF h] h n show ?thesis by blast
qed

section \<open>The end-to-end scenario\<close>

text \<open>
  C4: three candidate file names \<open>a\<close>, \<open>b\<close>, \<open>c\<close>, in any order, each with a transcription
  record, where \<open>a\<close> fails the quality filter only, \<open>b\<close> fails the duration filter only and
  \<open>c\<close> passes both: \<^verbatim>\<open>apply_filters\<close> returns exactly one passed sample, the one of \<open>c\<close>,
  and a report with \<^verbatim>\<open>total\<close> 3, \<^verbatim>\<open>passed\<close> 1, \<^verbatim>\<open>failed_duration\<close> 1,
  \<^verbatim>\<open>failed_quality\<close> 1 and \<^verbatim>\<open>failed_both\<close> 0. The witness is the scenario with
  confidence 0.1 for \<open>a\<close>, a final duration of 500 seconds for \<open>b\<close> and the default thresholds.
\<close>

theorem three_sample_scenario:
  assumes "keys_present ps ts"
    and "mset ss = {#a, b, c#}"
    and "has_transcription ts a" and "has_transcription ts b" and "has_transcription ts c"
    and "duration_ok (joined_preproc ps) dmin dmax a"
    and "\<not> quality_ok (joined_transcr ts) cmin wmin a"
    and "\<not> duration_ok (joined_preproc ps) dmin dmax b"
    and "quality_ok (joined_transcr ts) cmin wmin b"
    and "duration_ok (joined_preproc ps) dmin dmax c"
    and "quality_ok (joined_transcr ts) cmin wmin c"
  shows "\<exists>rep. apply_filters ss ps ts dmin dmax cmin wmin =
                 Inr ([\<lparr>filename = c, preprocessing = joined_preproc ps c,
                        transcription = joined_transcr ts c, status = ''passed''\<rparr>], rep) \<and>
               total rep = 3 \<and> passed rep = 1 \<and> failed_duration rep = 1 \<and>
               failed_quality rep = 1 \<and> failed_both rep = 0"
proof -
  from apply_filters_returns [OF assms(1)]
  obtain fs rep where r: "apply_filters ss ps ts dmin dmax cmin wmin = Inr (fs, rep)"
    by blast
  note res = apply_filters_result [OF r, unfolded transcribed_has_transcription]
  have "filter (\<lambda>s. has_transcription ts s \<and> duration_ok (joined_preproc ps) dmin dmax s \<and>
                     quality_ok (joined_transcr ts) cmin wmin s) ss = [c]"
    using assms by (intro filter_single_mset) simp
  with res(2) have "fs = [passed_sample (joined_preproc ps) (joined_transcr ts) c]"
    by simp
  moreover have "length ss = 3"
    using arg_cong [OF assms(2), of size] by simp
  moreover have "passed rep = 1" "failed_duration rep = 1" "failed_quality rep = 1" "failed_both rep = 0"
    using assms by (simp_all add: res length_filter_mset)
  ultimately show ?thesis
    using r res(3) by (simp add: passed_sample_def)
qed

theorem three_sample_scenario_witness:
  "\<exists>rep. apply_filters [''a.wav'', ''b.wav'', ''c.wav''] scenario_preprocess scenario_transcriptions
            (Fin 2) (Fin 300) (Fin (3 / 10)) 3 =
          Inr ([\<lparr>filename = ''c.wav'', preprocessing = preproc_example ''c.wav'' 20,
                 transcription = transcr_example ''c.wav'' (9 / 10) ''this one is fine'',
                 status = ''passed''\<rparr>], rep) \<and>
        total rep = 3 \<and> passed rep = 1 \<and> failed_duration rep = 1 \<and>
        failed_quality rep = 1 \<and> failed_both rep = 0"
proof -
  have k: "keys_present scenario_preprocess scenario_transcriptions"
    by code_simp
  have m: "mset [''a.wav'', ''b.wav'', ''c.wav''] = {#''a.wav'', ''b.wav'', ''c.wav''#}"
    by simp
  have t: "has_transcription scenario_transcriptions ''a.wav''"
    "has_transcription scenario_transcriptions ''b.wav''"
    "has_transcription scenario_transcriptions ''c.wav''"
    by code_simp+
  have a: "duration_ok (joined_preproc scenario_preprocess) (Fin 2) (Fin 300) ''a.wav''"
    "\<not> quality_ok (joined_transcr scenario_transcriptions) (Fin (3 / 10)) 3 ''a.wav''"
    by code_simp+
  have b: "\<not> duration_ok (joined_preproc scenario_preprocess) (Fin 2) (Fin 300) ''b.wav''"
    "quality_ok (joined_transcr scenario_transcriptions) (Fin (3 / 10)) 3 ''b.wav''"
    by code_simp+
  have c: "duration_ok (joined_preproc scenario_preprocess) (Fin 2) (Fin 300) ''c.wav''"
    "quality_ok (joined_transcr scenario_transcriptions) (Fin (3 / 10)) 3 ''c.wav''"
    by code_simp+
  have j: "joined_preproc scenario_preprocess ''c.wav'' = preproc_example ''c.wav'' 20"
    "joined_transcr scenario_transcriptions ''c.wav'' =
       transcr_example ''c.wav'' (9 / 10) ''this one is fine''"
    by code_simp+
  from three_sample_scenario [OF k m t a b c] show ?thesis
    by (simp only: j)
qed

section \<open>The duration filter\<close>

text \<open>
  C2, as stated, fails when the bounds are crossed: with \<open>min_duration = 5\<close> and
  \<open>max_duration = 3\<close> a final duration of 5, equal to \<open>min_duration\<close>, is rejected as too long.
\<close>

theorem duration_bound_counterexample:
  "filter_by_duration (duration_sample (Fin 5)) (Fin 5) (Fin 3) =
     (False, TooLong (Fin 5) (Fin 3))"
  by (simp add: filter_by_duration_def duration_sample_def empty_preprocess_def get_or_def
      float_gt_def)

text \<open>
  C2, amended: for bounds with \<open>min_duration \<le> max_duration\<close>, \<^verbatim>\<open>filter_by_duration\<close> is
  inclusive at both bounds: a final duration exactly equal to \<open>min_duration\<close> passes and one
  exactly equal to \<open>max_duration\<close> passes. For any bounds, a duration strictly below
  \<open>min_duration\<close> fails, as too short, and a duration strictly above \<open>max_duration\<close> fails.
  The comparisons are Python's own, so none of the premises holds of a NaN.
\<close>

theorem duration_filter_inclusive:
  "(float_le min_duration max_duration \<and>
    float_eq (get_or (p_final_duration sample) (Fin 0)) min_duration \<longrightarrow>
      filter_by_duration sample min_duration max_duration = (True, DurationOK)) \<and>
   (float_le min_duration max_duration \<and>
    float_eq (get_or (p_final_duration sample) (Fin 0)) max_duration \<longrightarrow>
      filter_by_duration sample min_duration max_duration = (True, DurationOK)) \<and>
   (float_lt (get_or (p_final_duration sample) (Fin 0)) min_duration \<longrightarrow>
      filter_by_duration sample min_duration max_duration =
        (False, TooShort (get_or (p_final_duration sample) (Fin 0)) min_duration)) \<and>
   (float_gt (get_or (p_final_duration sample) (Fin 0)) max_duration \<longrightarrow>
      \<not> fst (filter_by_duration sample min_duration max_duration))"
proof -
  have irrefl: "\<not> float_lt x x" for x
    by (cases x) simp_all
  have a: "filter_by_duration sample min_duration max_duration = (True, DurationOK)"
    if "float_le min_duration max_duration"
      "float_eq (get_or (p_final_duration sample) (Fin 0)) min_duration"
    using that irrefl [of min_duration]
    by (simp add: filter_by_duration_def Let_def float_le_def float_ge_def float_eq_def
        float_gt_def)
  have b: "filter_by_duration sample min_duration max_duration = (True, DurationOK)"
    if "float_le min_duration max_duration"
      "float_eq (get_or (p_final_duration sample) (Fin 0)) max_duration"
    using that irrefl [of max_duration]
    by (simp add: filter_by_duration_def Let_def float_le_def float_ge_def float_eq_def
        float_gt_def)
  have c: "filter_by_duration sample min_duration max_duration =
             (False, TooShort (get_or (p_final_duration sample) (Fin 0)) min_duration)"
    if "float_lt (get_or (p_final_duration sample) (Fin 0)) min_duration"
    using that by (simp add: filter_by_duration_def Let_def)
  have d: "\<not> fst (filter_by_duration sample min_duration max_duration)"
    if "float_gt (get_or (p_final_duration sample) (Fin 0)) max_duration"
    using that by (simp add: filter_by_duration_def Let_def)
  from a b c d show ?thesis by blast
qed

theorem duration_filter_inclusive_witness:
  "filter_by_duration (duration_sample (Fin 2)) (Fin 2) (Fin 300) = (True, DurationOK) \<and>
   filter_by_duration (duration_sample (Fin 300)) (Fin 2) (Fin 300) = (True, DurationOK) \<and>
   filter_by_duration (duration_sample (Fin (199 / 100))) (Fin 2) (Fin 300) =
     (False, TooShort (Fin (199 / 100)) (Fin 2)) \<and>
   \<not> fst (filter_by_duration (duration_sample (Fin (30001 / 100))) (Fin 2) (Fin 300))"
proof -
  have d: "get_or (p_final_duration (duration_sample x)) (Fin 0) = x" for x
    by (simp add: duration_sample_def get_or_def)
  have le: "float_le (Fin 2) (Fin 300)"
    by (simp add: float_le_def float_ge_def)
  show ?thesis
    using duration_filter_inclusive [of "Fin 2" "Fin 300" "duration_sample (Fin 2)"]
      duration_filter_inclusive [of "Fin 2" "Fin 300" "duration_sample (Fin 300)"]
      duration_filter_inclusive [of "Fin 2" "Fin 300" "duration_sample (Fin (199 / 100))"]
      duration_filter_inclusive [of "Fin 2" "Fin 300" "duration_sample (Fin (30001 / 100))"]
      le
    by (simp add: d float_eq_def float_gt_def)
qed

section \<open>The repetition check\<close>

text \<open>
  C3: let \<open>ws\<close> be the tokens of a transcription text, lower-cased and cut at whitespace, and
  let the other conditions of the quality filter hold (success, a confidence that is not
  below the threshold, word count, a letter in the text). If \<open>ws\<close> has more than 5 tokens and fewer than 0.3 unique tokens per
  token, the filter fails with the excessive-repetition reason. In particular six copies of
  one token fail, with ratio 1/6, and six pairwise distinct tokens pass. The code cuts the
  stripped text; the tokens are the same.
\<close>

theorem repetition_check:
  assumes "truthy (t_success sample)"
    and "\<not> float_lt (get_or (t_confidence sample) (Fin 0)) min_confidence"
    and "min_words \<le> get_or (t_word_count sample) 0"
    and "list_ex ascii_letter (get_or (t_text sample) [])"
    and "ws = py_split (py_lower (get_or (t_text sample) []))"
  shows "(5 < length ws \<and> unique_ratio ws < 3 / 10 \<longrightarrow>
            filter_by_transcription_quality sample min_confidence min_words =
              (False, ExcessiveRepetition (unique_ratio ws))) \<and>
         (ws = replicate 6 w \<longrightarrow>
            filter_by_transcription_quality sample min_confidence min_words =
              (False, ExcessiveRepetition (1 / 6))) \<and>
         (length ws = 6 \<and> distinct ws \<longrightarrow>
            filter_by_transcription_quality sample min_confidence min_words = (True, QualityOK))"
proof -
  let ?text = "py_strip (get_or (t_text sample) [])"
  from assms(4) have letter: "list_ex ascii_letter ?text"
    by (simp only: letter_in_stripped)
  then have ne: "?text \<noteq> []"
    by auto
  from assms(5) have ws: "py_split (py_lower ?text) = ws"
    by (simp only: words_of_stripped)
  have core: "filter_by_transcription_quality sample min_confidence min_words =
      (if 5 < length ws \<and> unique_ratio ws < 3 / 10
       then (False, ExcessiveRepetition (unique_ratio ws)) else (True, QualityOK))"
    using assms(1-3) letter ne ws
    by (auto simp: filter_by_transcription_quality_def Let_def)
  have r6: "unique_ratio (replicate 6 w) = 1 / 6"
    by (simp add: unique_ratio_def)
  have d6: "unique_ratio ws = 1" if "length ws = 6" "distinct ws"
    using that by (simp add: unique_ratio_def distinct_card)
  show ?thesis
    unfolding core by (auto simp: r6 d6)
qed

theorem repetition_check_witness:
  "filter_by_transcription_quality
     (transcr_example ''r.wav'' (9 / 10) ''hello hello Hello  HELLO hello hello'') (Fin (3 / 10)) 3 =
     (False, ExcessiveRepetition (1 / 6)) \<and>
   filter_by_transcription_quality
     (transcr_example ''v.wav'' (9 / 10) ''one two three four five six'') (Fin (3 / 10)) 3 =
     (True, QualityOK)"
proof -
  let ?r = "transcr_example ''r.wav'' (9 / 10) ''hello hello Hello  HELLO hello hello''"
  let ?v = "transcr_example ''v.wav'' (9 / 10) ''one two three four five six''"
  have r: "truthy (t_success ?r)" "\<not> float_lt (get_or (t_confidence ?r) (Fin 0)) (Fin (3 / 10))"
    "3 \<le> get_or (t_word_count ?r) 0" "list_ex ascii_letter (get_or (t_text ?r) [])"
    "replicate 6 ''hello'' = py_split (py_lower (get_or (t_text ?r) []))"
    by code_simp+
  have v: "truthy (t_success ?v)" "\<not> float_lt (get_or (t_confidence ?v) (Fin 0)) (Fin (3 / 10))"
    "3 \<le> get_or (t_word_count ?v) 0" "list_ex ascii_letter (get_or (t_text ?v) [])"
    "[''one'', ''two'', ''three'', ''four'', ''five'', ''six''] =
       py_split (py_lower (get_or (t_text ?v) []))"
    by code_simp+
  from repetition_check [OF r, of "''hello''"] repetition_check [OF v, of "''x''"]
  show ?thesis by simp
qed

section \<open>The case-insensitive join\<close>

lemma last_match_append_Cons:
  assumes "P x" and "\<forall>y \<in> set ys. \<not> P y"
  shows "last_match P (xs @ x # ys) = Some x"
proof -
  have "find P zs = None \<Longrightarrow> find P (zs @ x # ws) = Some x" for zs ws
    using assms(1) by (induction zs) (auto split: if_splits)
  moreover from assms(2) have "find P (rev ys) = None"
    by (simp add: find_None_iff)
  ultimately show ?thesis by (simp add: last_match_def)
qed

text \<open>
  C5: let \<open>p\<close> be the last successful preprocessing record and \<open>t\<close> the last transcription
  record whose file names equal the candidate \<open>s\<close> after lower-casing, whatever the letter
  case of the three names. Then \<^verbatim>\<open>apply_filters\<close> joins \<open>s\<close> to \<open>p\<close> and \<open>t\<close>: every passed
  sample of \<open>s\<close> carries them, and \<open>s\<close> is passed or itemized as failed according to the two
  filters on \<open>p\<close> and \<open>t\<close>. Earlier records under the same lower-cased key are not used.
\<close>

theorem case_insensitive_join:
  assumes "apply_filters ss ps ts dmin dmax cmin wmin = Inr (fs, rep)"
    and "ps = ps1 @ p # ps2"
    and "truthy (p_success p)"
    and "map_option py_lower (p_output_file p) = Some (py_lower s)"
    and "\<forall>q \<in> set ps2. \<not> (truthy (p_success q) \<and>
                             map_option py_lower (p_output_file q) = Some (py_lower s))"
    and "ts = ts1 @ t # ts2"
    and "map_option py_lower (t_filename t) = Some (py_lower s)"
    and "\<forall>q \<in> set ts2. map_option py_lower (t_filename q) \<noteq> Some (py_lower s)"
    and "s \<in> set ss"
  shows "(\<forall>f \<in> set fs. filename f = s \<longrightarrow> preprocessing f = p \<and> transcription f = t) \<and>
         (if fst (filter_by_duration p dmin dmax) \<and> fst (filter_by_transcription_quality t cmin wmin)
          then \<lparr>filename = s, preprocessing = p, transcription = t, status = ''passed''\<rparr> \<in> set fs
          else \<lparr>failed_filename = s,
                failed_reasons =
                  (if fst (filter_by_duration p dmin dmax) then []
                   else [snd (filter_by_duration p dmin dmax)]) @
                  (if fst (filter_by_transcription_quality t cmin wmin) then []
                   else [snd (filter_by_transcription_quality t cmin wmin)])\<rparr>
                 \<in> set (reasons rep))"
proof -
  have jp: "joined_preproc ps s = p"
    unfolding joined_preproc_def assms(2)
    using assms(3,4,5) by (subst last_match_append_Cons) (simp_all add: get_or_def)
  have jt: "joined_transcr ts s = t"
    unfolding joined_transcr_def assms(6)
    using assms(7,8) by (subst last_match_append_Cons) (simp_all add: get_or_def)
  have tr: "transcribed (joined_transcr ts) s"
    using assms(6,7) by (auto simp: transcribed_joined)
  note res = apply_filters_result [OF assms(1)]
  have one: "\<forall>f \<in> set fs. filename f = s \<longrightarrow> preprocessing f = p \<and> transcription f = t"
    unfolding res(2) using jp jt by (auto simp: passed_sample_def)
  show ?thesis
  proof (cases "fst (filter_by_duration p dmin dmax) \<and> fst (filter_by_transcription_quality t cmin wmin)")
    case True
    with tr jp jt assms(9) have "passed_sample (joined_preproc ps) (joined_transcr ts) s \<in> set fs"
      unfolding res(2) by (auto simp: duration_ok_def quality_ok_def)
    from this [unfolded passed_sample_def jp jt] one
    show ?thesis unfolding if_P [OF True] by blast
  next
    case False
    with tr jp jt assms(9)
    have "failure_of (joined_preproc ps) (joined_transcr ts) dmin dmax cmin wmin s \<in> set (reasons rep)"
      unfolding res(8) by (auto simp: duration_ok_def quality_ok_def)
    from this [unfolded failure_of_def duration_ok_def quality_ok_def jp jt] one
    show ?thesis unfolding if_not_P [OF False] by blast
  qed
qed

theorem case_insensitive_join_witness:
  "apply_filters [''Sample.wav''] join_preprocess join_transcriptions
      (Fin 2) (Fin 300) (Fin (3 / 10)) 3 =
     Inr ([join_passed], join_report) \<and>
   py_lower ''Sample.wav'' = py_lower ''sample.wav'' \<and>
   filename join_passed = ''Sample.wav'' \<and>
   preprocessing join_passed = preproc_example ''Sample.wav'' 10 \<and>
   transcription join_passed = transcr_example ''sample.wav'' (9 / 10) ''hello there world'' \<and>
   \<lparr>filename = ''Sample.wav'', preprocessing = preproc_example ''Sample.wav'' 10,
     transcription = transcr_example ''sample.wav'' (9 / 10) ''hello there world'',
     status = ''passed''\<rparr> \<in> set [join_passed]"
proof -
  have r: "apply_filters [''Sample.wav''] join_preprocess join_transcriptions
      (Fin 2) (Fin 300) (Fin (3 / 10)) 3 =
             Inr ([join_passed], join_report)"
    by code_simp
  have ps: "join_preprocess = [preproc_example ''SAMPLE.wav'' 1] @ preproc_example ''Sample.wav'' 10 # []"
    by (simp add: join_preprocess_def)
  have ts: "join_transcriptions =
              [transcr_example ''SAMPLE.WAV'' (1 / 10) ''first try''] @
              transcr_example ''sample.wav'' (9 / 10) ''hello there world'' # []"
    by (simp add: join_transcriptions_def)
  have p: "truthy (p_success (preproc_example ''Sample.wav'' 10))"
    "map_option py_lower (p_output_file (preproc_example ''Sample.wav'' 10)) =
       Some (py_lower ''Sample.wav'')"
    by (simp_all add: preproc_example_def truthy_def)
  have l: "py_lower ''Sample.wav'' = py_lower ''sample.wav''"
    by code_simp
  have t: "map_option py_lower
             (t_filename (transcr_example ''sample.wav'' (9 / 10) ''hello there world'')) =
           Some (py_lower ''Sample.wav'')"
    by (simp add: transcr_example_def l)
  have ok: "fst (filter_by_duration (preproc_example ''Sample.wav'' 10) (Fin 2) (Fin 300)) \<and>
            fst (filter_by_transcription_quality
                   (transcr_example ''sample.wav'' (9 / 10) ''hello there world'') (Fin (3 / 10)) 3)"
    by code_simp
  have j: "filename join_passed = ''Sample.wav''"
    "preprocessing join_passed = preproc_example ''Sample.wav'' 10"
    "transcription join_passed = transcr_example ''sample.wav'' (9 / 10) ''hello there world''"
    by (simp_all add: join_passed_def)
  from case_insensitive_join [OF r ps p _ ts t] r l ok j show ?thesis
    by simp
qed

section \<open>Candidates without preprocessing data\<close>

lemma length_filter_map_key:
  assumes "\<And>x. g (F x) = x" and "Q s"
  shows "length (filter (\<lambda>e. g e = s) (map F (filter Q xs))) = length (filter (\<lambda>x. x = s) xs)"
  using assms by (induction xs) auto

lemma length_filter_eq_iff: "length (filter P xs) = length xs \<longleftrightarrow> (\<forall>x \<in> set xs. P x)"
proof (induction xs)
  case Nil
  show ?case by simp
next
  case (Cons x xs)
  have "length (filter P xs) \<le> length xs" by simp
  then have "length (filter P xs) \<noteq> Suc (length xs)" by linarith
  with Cons show ?case by auto
qed

lemma filter_filter_implied:
  assumes "\<And>x. P x \<Longrightarrow> H x"
  shows "filter P (filter H xs) = filter P xs"
  using assms by (induction xs) auto

lemma joined_preproc_missing:
  assumes "\<forall>p \<in> set ps. truthy (p_success p) \<longrightarrow>
             map_option py_lower (p_output_file p) \<noteq> Some (py_lower s)"
  shows "joined_preproc ps s = empty_preprocess"
proof -
  from assms
  have "last_match (\<lambda>r. truthy (p_success r) \<and>
                          map_option py_lower (p_output_file r) = Some (py_lower s)) ps = None"
    unfolding last_match_None by blast
  then show ?thesis
    by (simp add: joined_preproc_def get_or_def)
qed

text \<open>The same on the lists of records: the candidate has a transcription record and no
  successful preprocessing record under its lower-cased name.\<close>

lemma missing_preprocessing_fails:
  assumes "keys_present ps ts"
    and "has_transcription ts s"
    and "\<forall>p \<in> set ps. truthy (p_success p) \<longrightarrow>
           map_option py_lower (p_output_file p) \<noteq> Some (py_lower s)"
    and "s \<in> set ss"
    and "float_lt (Fin 0) min_duration"
  shows "\<exists>fs rep. apply_filters ss ps ts min_duration max_duration min_confidence min_words =
                     Inr (fs, rep) \<and>
           filter_by_duration (joined_preproc ps s) min_duration max_duration =
             (False, TooShort (Fin 0) min_duration) \<and>
           s \<notin> filename ` set fs \<and>
           length (filter (\<lambda>e. failed_filename e = s) (reasons rep)) =
             length (filter (\<lambda>x. x = s) ss) \<and>
           (\<forall>e \<in> set (reasons rep). failed_filename e = s \<longrightarrow>
              (\<exists>rest. failed_reasons e = TooShort (Fin 0) min_duration # rest))"
proof -
  from apply_filters_returns [OF assms(1)]
  obtain fs rep
    where r: "apply_filters ss ps ts min_duration max_duration min_confidence min_words = Inr (fs, rep)"
    by blast
  note res = apply_filters_result [OF r, unfolded transcribed_has_transcription]
  have d: "filter_by_duration (joined_preproc ps s) min_duration max_duration =
             (False, TooShort (Fin 0) min_duration)"
    using assms(5)
    by (simp add: joined_preproc_missing [OF assms(3)] filter_by_duration_def get_or_def
        empty_preprocess_def)
  then have nd: "\<not> duration_ok (joined_preproc ps) min_duration max_duration s"
    by (simp add: duration_ok_def)
  have a: "s \<notin> filename ` set fs"
    unfolding res(2) using nd by (auto simp: passed_sample_def)
  have ff: "failed_filename (failure_of P T a b c d x) = x" for P T a b c d x
    by (simp add: failure_of_def)
  have b: "length (filter (\<lambda>e. failed_filename e = s) (reasons rep)) =
             length (filter (\<lambda>x. x = s) ss)"
    unfolding res(8) using nd assms(2)
    by (intro length_filter_map_key) (simp_all add: ff)
  have c: "\<exists>rest. failed_reasons e = TooShort (Fin 0) min_duration # rest"
    if "e \<in> set (reasons rep)" "failed_filename e = s" for e
  proof -
    from that have "e = failure_of (joined_preproc ps) (joined_transcr ts)
                          min_duration max_duration min_confidence min_words s"
      unfolding res(8) by (auto simp: ff)
    with nd d show ?thesis
      by (simp add: failure_of_def)
  qed
  from r d a b c show ?thesis by blast
qed

lemma has_transcription_built:
  assumes "transcribe_dict_from Map.empty ts = Inr td"
  shows "has_transcription ts s \<longleftrightarrow> td (py_lower s) \<noteq> None"
proof -
  from transcribe_dict_from_lookup [OF assms, of "py_lower s"]
  have "td (py_lower s) = None \<longleftrightarrow>
          last_match (\<lambda>r. map_option py_lower (t_filename r) = Some (py_lower s)) ts = None"
    by (simp split: option.splits)
  then show ?thesis
    by (simp only: last_match_None has_transcription_def list_ex_iff) blast
qed

lemma no_preprocessing_built:
  assumes "preprocess_dict_from Map.empty ps = Inr pd"
  shows "pd (py_lower s) = None \<longleftrightarrow>
           (\<forall>p \<in> set ps. truthy (p_success p) \<longrightarrow>
              map_option py_lower (p_output_file p) \<noteq> Some (py_lower s))"
proof -
  from preprocess_dict_from_lookup [OF assms, of "py_lower s"]
  have "pd (py_lower s) = None \<longleftrightarrow>
          last_match (\<lambda>r. truthy (p_success r) \<and>
                           map_option py_lower (p_output_file r) = Some (py_lower s)) ps = None"
    by (simp split: option.splits)
  then show ?thesis
    by (simp only: last_match_None) blast
qed

text \<open>
  C9: let the two lookups be built, and let the candidate \<open>s\<close> have a transcription record in
  the one and no entry in the other, the lookup of the successful preprocessing records.
  Then no error is raised: \<^verbatim>\<open>apply_filters\<close> returns, the duration filter reads the missing
  final duration as 0 and, for a positive \<open>min_duration\<close>, answers too short. The candidate is
  never passed, and each of its occurrences is itemized as failed with the too-short reason
  first.
\<close>

theorem missing_preprocessing_total:
  assumes "preprocess_dict_from Map.empty ps = Inr pd"
    and "transcribe_dict_from Map.empty ts = Inr td"
    and "td (py_lower s) \<noteq> None"
    and "pd (py_lower s) = None"
    and "s \<in> set ss"
    and "float_lt (Fin 0) min_duration"
  shows "\<exists>fs rep. apply_filters ss ps ts min_duration max_duration min_confidence min_words =
                     Inr (fs, rep) \<and>
           filter_by_duration (lookup_preproc pd s) min_duration max_duration =
             (False, TooShort (Fin 0) min_duration) \<and>
           s \<notin> filename ` set fs \<and>
           length (filter (\<lambda>e. failed_filename e = s) (reasons rep)) =
             length (filter (\<lambda>x. x = s) ss) \<and>
           (\<forall>e \<in> set (reasons rep). failed_filename e = s \<longrightarrow>
              (\<exists>rest. failed_reasons e = TooShort (Fin 0) min_duration # rest))"
proof -
  from assms(1,2) have k: "keys_present ps ts"
    by (auto simp: keys_present_iff)
  from assms(2,3) have t: "has_transcription ts s"
    by (simp add: has_transcription_built)
  from assms(1,4) have n: "\<forall>p \<in> set ps. truthy (p_success p) \<longrightarrow>
           map_option py_lower (p_output_file p) \<noteq> Some (py_lower s)"
    by (simp only: no_preprocessing_built)
  from missing_preprocessing_fails [OF k t n assms(5,6)]
  show ?thesis
    by (simp only: lookup_preproc_joined [OF assms(1)])
qed

theorem missing_preprocessing_total_witness:
  "apply_filters [''orphan.wav''] orphan_preprocess orphan_transcriptions
      (Fin 2) (Fin 300) (Fin (3 / 10)) 3 =
     Inr ([], orphan_report) \<and>
   filter_by_duration (lookup_preproc Map.empty ''orphan.wav'') (Fin 2) (Fin 300) =
     (False, TooShort (Fin 0) (Fin 2)) \<and>
   length (filter (\<lambda>e. failed_filename e = ''orphan.wav'') (reasons orphan_report)) = 1 \<and>
   map failed_reasons (reasons orphan_report) = [[TooShort (Fin 0) (Fin 2)]]"
proof -
  let ?t = "transcr_example ''orphan.wav'' (9 / 10) ''hello there world''"
  have r: "apply_filters [''orphan.wav''] orphan_preprocess orphan_transcriptions
      (Fin 2) (Fin 300) (Fin (3 / 10)) 3 =
             Inr ([], orphan_report)"
    by code_simp
  have p: "preprocess_dict_from Map.empty orphan_preprocess = Inr Map.empty"
    by (simp add: orphan_preprocess_def truthy_def)
  have t: "transcribe_dict_from Map.empty orphan_transcriptions =
             Inr [py_lower ''orphan.wav'' \<mapsto> ?t]"
    by (simp add: orphan_transcriptions_def transcr_example_def)
  have h: "[py_lower ''orphan.wav'' \<mapsto> ?t] (py_lower ''orphan.wav'') \<noteq> None"
    "(Map.empty :: string \<rightharpoonup> preprocess_result) (py_lower ''orphan.wav'') = None"
    by simp_all
  have s: "''orphan.wav'' \<in> set [''orphan.wav'']"
    by simp
  have m: "float_lt (Fin 0) (Fin 2)"
    by simp
  have e: "map failed_reasons (reasons orphan_report) = [[TooShort (Fin 0) (Fin 2)]]"
    by (simp add: orphan_report_def)
  from missing_preprocessing_total [OF p t h s m, of "Fin 300" "Fin (3 / 10)" 3] r e
  show ?thesis by simp
qed

section \<open>The total of a report\<close>

text \<open>
  C10: in every report returned by \<^verbatim>\<open>apply_filters\<close>, \<^verbatim>\<open>total\<close> is the number of candidates
  given. A candidate without a transcription record is counted in no other field: leaving
  such candidates out of the input changes nothing but \<^verbatim>\<open>total\<close>. So \<^verbatim>\<open>passed\<close> plus the
  number of itemized failures is the number of candidates with a transcription record; it is
  at most \<^verbatim>\<open>total\<close>, and equal to it exactly when every candidate has a transcription record.
\<close>

theorem report_total_accounting:
  assumes "apply_filters ss ps ts min_duration max_duration min_confidence min_words = Inr (fs, rep)"
  shows "total rep = length ss \<and>
         passed rep = length fs \<and>
         passed rep + length (reasons rep) = length (filter (has_transcription ts) ss) \<and>
         passed rep + length (reasons rep) \<le> total rep \<and>
         (passed rep + length (reasons rep) = total rep \<longleftrightarrow>
            (\<forall>s \<in> set ss. has_transcription ts s)) \<and>
         apply_filters (filter (has_transcription ts) ss) ps ts
             min_duration max_duration min_confidence min_words =
           Inr (fs, rep\<lparr>total := length (filter (has_transcription ts) ss)\<rparr>)"
proof -
  note res = apply_filters_result [OF assms, unfolded transcribed_has_transcription]
  let ?H = "has_transcription ts"
  let ?D = "duration_ok (joined_preproc ps) min_duration max_duration"
  let ?Q = "quality_ok (joined_transcr ts) min_confidence min_words"
  have split: "length (filter (\<lambda>s. ?H s \<and> ?D s \<and> ?Q s) xs) +
               length (filter (\<lambda>s. ?H s \<and> \<not> (?D s \<and> ?Q s)) xs) = length (filter ?H xs)" for xs
    by (induction xs) auto
  have t: "total rep = length ss" by (rule res(3))
  have p: "passed rep = length fs" by (simp add: res(2) res(4))
  have s: "passed rep + length (reasons rep) = length (filter ?H ss)"
    unfolding res(4) res(8) length_map by (rule split)
  have le: "passed rep + length (reasons rep) \<le> total rep"
    by (simp add: s t)
  have eq: "passed rep + length (reasons rep) = total rep \<longleftrightarrow> (\<forall>s \<in> set ss. ?H s)"
    by (simp only: s t length_filter_eq_iff)
  have ff: "filter P (filter ?H ss) = filter P ss" if "\<And>s. P s \<Longrightarrow> ?H s" for P
    using that by (rule filter_filter_implied)
  from apply_filters_returns [OF res(1)]
  obtain fs' rep'
    where r': "apply_filters (filter ?H ss) ps ts min_duration max_duration min_confidence min_words =
                 Inr (fs', rep')"
    by blast
  note res' = apply_filters_result [OF r', unfolded transcribed_has_transcription]
  have "fs' = fs"
    by (simp add: res'(2) res(2) ff)
  moreover have "rep' = rep\<lparr>total := length (filter ?H ss)\<rparr>"
    by (rule filter_report.equality)
       (simp_all add: res'(3-8) res(4-8) ff)
  ultimately show ?thesis
    using t p s le eq r' by simp
qed

theorem report_total_accounting_witness:
  "apply_filters [''a.wav'', ''missing.wav'', ''b.wav'', ''c.wav'']
       scenario_preprocess scenario_transcriptions (Fin 2) (Fin 300) (Fin (3 / 10)) 3 =
     Inr ([scenario_passed], scenario_report) \<and>
   total scenario_report = 4 \<and>
   passed scenario_report + length (reasons scenario_report) = 3 \<and>
   \<not> has_transcription scenario_transcriptions ''missing.wav'' \<and>
   apply_filters [''a.wav'', ''b.wav'', ''c.wav'']
       scenario_preprocess scenario_transcriptions (Fin 2) (Fin 300) (Fin (3 / 10)) 3 =
     Inr ([scenario_passed], scenario_report\<lparr>total := 3\<rparr>)"
proof -
  have r: "apply_filters [''a.wav'', ''missing.wav'', ''b.wav'', ''c.wav'']
             scenario_preprocess scenario_transcriptions (Fin 2) (Fin 300) (Fin (3 / 10)) 3 =
           Inr ([scenario_passed], scenario_report)"
    by code_simp
  have f: "filter (has_transcription scenario_transcriptions)
             [''a.wav'', ''missing.wav'', ''b.wav'', ''c.wav''] = [''a.wav'', ''b.wav'', ''c.wav'']"
    by code_simp
  have n: "\<not> has_transcription scenario_transcriptions ''missing.wav''"
    by code_simp
  have t: "total scenario_report = 4" "passed scenario_report = 1"
    "length (reasons scenario_report) = 2"
    by (simp_all add: scenario_report_def)
  from report_total_accounting [OF r] r f n t show ?thesis
    by simp
qed

section \<open>The next version\<close>

lemma scan_versions_set:
  "set (scan_versions acc items) =
     set acc \<union> {v. \<exists>item \<in> set items. is_dir item \<and> startswith (name item) ''dataset_v'' \<and>
                    py_int (py_replace ''dataset_v'' [] (name item)) = Some v}"
  by (induction acc items rule: scan_versions.induct) (auto split: option.splits)

text \<open>
  C6: \<^verbatim>\<open>get_next_version\<close> returns 1 when the output root does not exist. For a directory it
  looks at the entries that are directories, whose names start with \<^verbatim>\<open>dataset_v\<close> and whose
  rest parses as an integer, and ignores all others: it returns 1 when there is none and one
  more than the greatest parsed version otherwise. With directories for the versions 1, 2
  and 4 among other entries it returns 5.
\<close>

theorem get_next_version_spec:
  "get_next_version Missing = Inr 1 \<and>
   get_next_version (Dir items) =
     Inr (if {v. \<exists>item \<in> set items. is_dir item \<and> startswith (name item) ''dataset_v'' \<and>
                   py_int (py_replace ''dataset_v'' [] (name item)) = Some v} = {}
          then 1
          else Max {v. \<exists>item \<in> set items. is_dir item \<and> startswith (name item) ''dataset_v'' \<and>
                         py_int (py_replace ''dataset_v'' [] (name item)) = Some v} + 1) \<and>
   get_next_version (Dir []) = Inr 1 \<and>
   get_next_version (Dir example_output_dir) = Inr 5"
proof -
  let ?V = "{v. \<exists>item \<in> set items. is_dir item \<and> startswith (name item) ''dataset_v'' \<and>
                   py_int (py_replace ''dataset_v'' [] (name item)) = Some v}"
  have V: "set (scan_versions [] items) = ?V"
    by (simp add: scan_versions_set)
  have a: "get_next_version Missing = Inr 1"
    by (simp add: get_next_version_def)
  have b: "get_next_version (Dir items) = Inr (if ?V = {} then 1 else Max ?V + 1)"
    unfolding V [symmetric] by (simp add: get_next_version_def Let_def)
  have c: "get_next_version (Dir []) = Inr 1"
    by (simp add: get_next_version_def)
  have d: "get_next_version (Dir example_output_dir) = Inr 5"
    by code_simp
  show ?thesis
    by (rule conjI [OF a conjI [OF b conjI [OF c d]]])
qed

section \<open>Sample identifiers\<close>

text \<open>
  C7, as stated, fails: the builder keeps every sample it is given. Two raw files \<^verbatim>\<open>a.mp3\<close>
  and \<^verbatim>\<open>a.wav\<close> are both preprocessed to \<^verbatim>\<open>a.wav\<close>, which is then a candidate twice and
  passes twice, and the data set has two records with the \<^verbatim>\<open>sample_id\<close> \<^verbatim>\<open>a\<close>.
\<close>

theorem sample_id_unique_counterexample:
  "output_file_name ''raw_audio/a.mp3'' = ''a.wav'' \<and>
   output_file_name ''raw_audio/a.wav'' = ''a.wav'' \<and>
   apply_filters [''a.wav'', ''a.wav''] duplicate_preprocess duplicate_transcriptions
       (Fin 2) (Fin 300) (Fin (3 / 10)) 3 =
     Inr ([duplicate_sample, duplicate_sample], duplicate_report) \<and>
   map_sum id (map sample_id) (create_dataset_metadata [duplicate_sample, duplicate_sample]) =
     Inr [''a'', ''a''] \<and>
   \<not> distinct [''a'', ''a'' :: string]"
proof -
  have a: "output_file_name ''raw_audio/a.mp3'' = ''a.wav''"
    by code_simp
  have b: "output_file_name ''raw_audio/a.wav'' = ''a.wav''"
    by code_simp
  have c: "apply_filters [''a.wav'', ''a.wav''] duplicate_preprocess duplicate_transcriptions
       (Fin 2) (Fin 300) (Fin (3 / 10)) 3 =
     Inr ([duplicate_sample, duplicate_sample], duplicate_report)"
    by code_simp
  have d: "map_sum id (map sample_id) (create_dataset_metadata [duplicate_sample, duplicate_sample]) =
     Inr [''a'', ''a'']"
    by code_simp
  have e: "\<not> distinct [''a'', ''a'' :: string]"
    by simp
  show ?thesis
    by (rule conjI [OF a conjI [OF b conjI [OF c conjI [OF d e]]]])
qed

lemma create_dataset_metadata_Inr:
  "create_dataset_metadata fs = Inr recs \<longleftrightarrow>
     fs \<noteq> [] \<and> recs = sort_key sample_id (map make_record fs)"
  by (auto simp: create_dataset_metadata_def Let_def)

text \<open>
  C7, amended: the \<^verbatim>\<open>sample_id\<close> of each record is the stem of its file name, and the
  \<^verbatim>\<open>sample_id\<close>s of the data set are the stems of the given samples' file names, each as
  often as it occurs there; they are unique exactly when those stems are pairwise distinct.
\<close>

theorem sample_id_is_stem:
  assumes "create_dataset_metadata fs = Inr recs"
  shows "(\<forall>r \<in> set recs. sample_id r = stem (d_filename r)) \<and>
         mset (map sample_id recs) = mset (map (\<lambda>f. stem (filename f)) fs) \<and>
         (distinct (map sample_id recs) \<longleftrightarrow> distinct (map (\<lambda>f. stem (filename f)) fs))"
proof -
  from assms have recs: "recs = sort_key sample_id (map make_record fs)"
    by (simp add: create_dataset_metadata_Inr)
  have id: "sample_id (make_record f) = stem (filename f)"
    "d_filename (make_record f) = filename f" for f
    by (simp_all add: make_record_def Let_def)
  have a: "\<forall>r \<in> set recs. sample_id r = stem (d_filename r)"
    by (auto simp: recs id)
  have b: "mset (map sample_id recs) = mset (map (\<lambda>f. stem (filename f)) fs)"
  proof -
    have "mset (map sample_id recs) = mset (map sample_id (map make_record fs))"
      unfolding recs by (simp add: multiset.map_comp)
    also have "map sample_id (map make_record fs) = map (\<lambda>f. stem (filename f)) fs"
      by (simp add: id)
    finally show ?thesis .
  qed
  from b have c: "distinct (map sample_id recs) \<longleftrightarrow> distinct (map (\<lambda>f. stem (filename f)) fs)"
    by (rule mset_eq_imp_distinct_iff)
  from a b c show ?thesis by blast
qed

theorem sample_id_is_stem_witness:
  "map_sum id (map sample_id) (create_dataset_metadata [stretched_sample, duplicate_sample]) =
     Inr [''a'', ''clip''] \<and>
   distinct (map (\<lambda>f. stem (filename f)) [stretched_sample, duplicate_sample]) \<and>
   distinct (map sample_id [make_record duplicate_sample, make_record stretched_sample])"
proof -
  have r: "create_dataset_metadata [stretched_sample, duplicate_sample] =
             Inr [make_record duplicate_sample, make_record stretched_sample]"
    by code_simp
  have m: "map_sum id (map sample_id)
             (create_dataset_metadata [stretched_sample, duplicate_sample]) =
           Inr [''a'', ''clip'']"
    by code_simp
  have d: "distinct (map (\<lambda>f. stem (filename f)) [stretched_sample, duplicate_sample])"
    by code_simp
  from sample_id_is_stem [OF r] d
  have "distinct (map sample_id [make_record duplicate_sample, make_record stretched_sample])"
    by blast
  with m d show ?thesis by blast
qed

section \<open>Trimmed duration\<close>

lemma float_sub_negative: "float_lt x y \<Longrightarrow> float_lt (float_sub x y) (Fin 0)"
  by (cases x; cases y) simp_all

text \<open>
  C8: the records of the data set are the records built from the given samples, and the
  trimmed duration of each is its original duration minus its final duration (each 0 if the
  key is absent), without clamping: it is negative when the final duration is the greater.
\<close>

theorem trimmed_duration_not_clamped:
  assumes "create_dataset_metadata fs = Inr recs"
  shows "mset recs = mset (map make_record fs) \<and>
         (\<forall>f \<in> set fs.
            trimmed_duration (make_record f) =
              float_sub (get_or (p_original_duration (preprocessing f)) (Fin 0))
                (get_or (p_final_duration (preprocessing f)) (Fin 0))) \<and>
         (\<forall>r \<in> set recs.
            trimmed_duration r = float_sub (original_duration r) (duration_seconds r) \<and>
            (float_lt (original_duration r) (duration_seconds r) \<longrightarrow>
               float_lt (trimmed_duration r) (Fin 0)))"
proof -
  from assms have recs: "recs = sort_key sample_id (map make_record fs)"
    by (simp add: create_dataset_metadata_Inr)
  have t: "trimmed_duration (make_record f) =
             float_sub (get_or (p_original_duration (preprocessing f)) (Fin 0))
               (get_or (p_final_duration (preprocessing f)) (Fin 0))"
    "original_duration (make_record f) = get_or (p_original_duration (preprocessing f)) (Fin 0)"
    "duration_seconds (make_record f) = get_or (p_final_duration (preprocessing f)) (Fin 0)" for f
    by (simp_all add: make_record_def Let_def)
  have a: "mset recs = mset (map make_record fs)"
    by (simp add: recs)
  have b: "\<forall>f \<in> set fs.
            trimmed_duration (make_record f) =
              float_sub (get_or (p_original_duration (preprocessing f)) (Fin 0))
                (get_or (p_final_duration (preprocessing f)) (Fin 0))"
    by (simp add: t)
  have c: "\<forall>r \<in> set recs.
            trimmed_duration r = float_sub (original_duration r) (duration_seconds r) \<and>
            (float_lt (original_duration r) (duration_seconds r) \<longrightarrow>
               float_lt (trimmed_duration r) (Fin 0))"
    by (auto simp: recs t float_sub_negative)
  from a b c show ?thesis by blast
qed

theorem trimmed_duration_not_clamped_witness:
  "map_sum id (map trimmed_duration) (create_dataset_metadata [stretched_sample]) =
     Inr [Fin (- 2)] \<and>
   original_duration (make_record stretched_sample) = Fin 10 \<and>
   duration_seconds (make_record stretched_sample) = Fin 12 \<and>
   trimmed_duration (make_record stretched_sample) = Fin (- 2) \<and>
   float_lt (trimmed_duration (make_record stretched_sample)) (Fin 0)"
proof -
  have r: "create_dataset_metadata [stretched_sample] = Inr [make_record stretched_sample]"
    by (simp add: create_dataset_metadata_def)
  have o: "original_duration (make_record stretched_sample) = Fin 10"
    "duration_seconds (make_record stretched_sample) = Fin 12"
    by (simp_all add: make_record_def stretched_sample_def preproc_example_def get_or_def Let_def)
  from trimmed_duration_not_clamped [OF r]
  have "trimmed_duration (make_record stretched_sample) =
          float_sub (original_duration (make_record stretched_sample))
            (duration_seconds (make_record stretched_sample))"
    by (metis list.set_intros(1))
  then have t: "trimmed_duration (make_record stretched_sample) = Fin (- 2)"
    by (simp add: o)
  from r o t show ?thesis
    by simp
qed

end
